theory Spec2Isabelle
  imports Complex_Main "HOL-Library.Sublist" "HOL-Library.Char_ord" "HOL-Library.List_Lexorder"
    "HOL-Library.Log_Nat"
begin

section \<open>JavaScript values\<close>

text \<open>
  The services of the transaction bot are JavaScript. A candidate transaction is a
  dynamically typed object whose fields come out of \<^verbatim>\<open>JSON.parse\<close>, so every validator
  starts with \<^verbatim>\<open>typeof\<close> and truthiness tests. The embedding keeps that: a field value is a
  \<open>js_value\<close>.

  Scope of the value model.
  \<^item> A number is a \<open>number\<close>: \<open>NaN\<close>, the two infinities, or a finite 64-bit float, held as
    the rational it denotes. Where the code computes a number (reading a decimal
    literal, subtracting, dividing), the model rounds the exact result to the nearest
    float, ties to even, with \<open>round_double\<close>. The sign of zero is not modelled. A file
    size divided by 1024 twice is left as the exact quotient, which is a float for every
    size below \<open>2\<^sup>5\<^sup>3\<close>.
  \<^item> A string is a \<open>string\<close> of ASCII characters; case mapping and white space are the ASCII
    ones.
  \<^item> \<open>JObj\<close> is a plain nested object \<^verbatim>\<open>{...}\<close>; no code path looks inside one. Arrays as
    field values are not modelled.
\<close>

datatype number = NaN | Finite rat | PosInfinity | NegInfinity

datatype js_value = JUndefined | JNull | JBool bool | JNum number | JStr string | JObj

fun truthy :: "js_value \<Rightarrow> bool" where
  "truthy JUndefined = False"
| "truthy JNull = False"
| "truthy (JBool b) = b"
| "truthy (JNum n) = (n \<noteq> NaN \<and> n \<noteq> Finite 0)"
| "truthy (JStr s) = (s \<noteq> [])"
| "truthy JObj = True"

text \<open>\<^verbatim>\<open>a || b\<close>\<close>

definition js_or :: "js_value \<Rightarrow> js_value \<Rightarrow> js_value" where
  "js_or a b = (if truthy a then a else b)"

text \<open>\<^verbatim>\<open>s || d\<close> where \<^verbatim>\<open>s\<close> is known to be a string\<close>

definition str_or :: "string \<Rightarrow> string \<Rightarrow> string" where
  "str_or s d = (if s \<noteq> [] then s else d)"

subsection \<open>Strings\<close>

definition is_space :: "char \<Rightarrow> bool" where
  "is_space c = (let n = (of_char c :: nat) in n = 32 \<or> (9 \<le> n \<and> n \<le> 13))"

definition is_digit :: "char \<Rightarrow> bool" where
  "is_digit c = (let n = (of_char c :: nat) in 48 \<le> n \<and> n \<le> 57)"

definition digit_val :: "char \<Rightarrow> nat" where
  "digit_val c = (of_char c :: nat) - 48"

definition is_upper :: "char \<Rightarrow> bool" where
  "is_upper c = (let n = (of_char c :: nat) in 65 \<le> n \<and> n \<le> 90)"

definition is_lower :: "char \<Rightarrow> bool" where
  "is_lower c = (let n = (of_char c :: nat) in 97 \<le> n \<and> n \<le> 122)"

definition trimStart :: "string \<Rightarrow> string" where
  "trimStart s = dropWhile is_space s"

definition trim :: "string \<Rightarrow> string" where
  "trim s = rev (dropWhile is_space (rev (dropWhile is_space s)))"

definition toUpperCase :: "string \<Rightarrow> string" where
  "toUpperCase s = map (\<lambda>c. if is_lower c then char_of ((of_char c :: nat) - 32) else c) s"

definition toLowerCase :: "string \<Rightarrow> string" where
  "toLowerCase s = map (\<lambda>c. if is_upper c then char_of ((of_char c :: nat) + 32) else c) s"

text \<open>\<^verbatim>\<open>xs.join(sep)\<close>\<close>

fun join :: "string \<Rightarrow> string list \<Rightarrow> string" where
  "join sep [] = []"
| "join sep [x] = x"
| "join sep (x # y # ys) = x @ sep @ join sep (y # ys)"

text \<open>\<^verbatim>\<open>s.includes(t)\<close>\<close>

definition str_includes :: "string \<Rightarrow> string \<Rightarrow> bool" where
  "str_includes s t = sublist t s"

subsection \<open>Rounding to a 64-bit float\<close>

text \<open>
  A finite float is \<open>m * 2\<^sup>e\<close> with \<open>\<bar>m\<bar> < 2\<^sup>5\<^sup>3\<close> and \<open>-1074 \<le> e \<le> 971\<close>. \<open>ilog2 r\<close> is the
  exponent \<open>k\<close> with \<open>2\<^sup>k \<le> r < 2\<^sup>k\<^sup>+\<^sup>1\<close> of a positive \<open>r\<close>, computed from the number of
  bits of its integer part (of the integer part of \<open>1 / r\<close> when \<open>r < 1\<close>).
\<close>

definition ilog2 :: "rat \<Rightarrow> int" where
  "ilog2 r = (if 1 \<le> r then bitlen \<lfloor>r\<rfloor> - 1 else - bitlen (\<lceil>1 / r\<rceil> - 1))"

text \<open>The nearest integer, the even one of the two when they are equally near.\<close>

definition round_half_even :: "rat \<Rightarrow> int" where
  "round_half_even x =
     (if x - of_int \<lfloor>x\<rfloor> < 1 / 2 then \<lfloor>x\<rfloor>
      else if 1 / 2 < x - of_int \<lfloor>x\<rfloor> then \<lfloor>x\<rfloor> + 1
      else if even \<lfloor>x\<rfloor> then \<lfloor>x\<rfloor> else \<lfloor>x\<rfloor> + 1)"

text \<open>
  The float nearest to a rational: the significand has 53 bits (fewer below \<open>2\<^sup>-\<^sup>1\<^sup>0\<^sup>2\<^sup>2\<close>,
  where the exponent stays at \<open>-1074\<close>), and a result of \<open>2\<^sup>1\<^sup>0\<^sup>2\<^sup>4\<close> or more is an infinity.
\<close>

definition round_double :: "rat \<Rightarrow> number" where
  "round_double r =
     (if r = 0 then Finite 0
      else (let e = max (ilog2 \<bar>r\<bar> - 52) (- 1074);
                m = round_half_even (r / 2 powi e);
                v = of_int m * 2 powi e
            in if 2 ^ 1024 \<le> \<bar>v\<bar>
               then (if 0 < r then PosInfinity else NegInfinity)
               else Finite v))"

subsection \<open>Reading numbers out of strings\<close>

definition digits_value :: "string \<Rightarrow> nat" where
  "digits_value ds = foldl (\<lambda>a c. 10 * a + digit_val c) 0 ds"

definition pow10 :: "int \<Rightarrow> rat" where
  "pow10 e = (if 0 \<le> e then 10 ^ nat e else 1 / 10 ^ nat (- e))"

text \<open>
  The exponent part of a decimal literal: \<^verbatim>\<open>e\<close> or \<^verbatim>\<open>E\<close>, an optional sign, at least one
  digit. The result is the exponent and the text after it; without a well-formed
  exponent nothing is consumed.
\<close>

definition parse_exponent :: "string \<Rightarrow> int \<times> string" where
  "parse_exponent s =
     (case s of
        [] \<Rightarrow> (0, s)
      | c # t \<Rightarrow>
          if c = CHR ''e'' \<or> c = CHR ''E'' then
            (let (neg, u) = (case t of
                               [] \<Rightarrow> (False, t)
                             | d # v \<Rightarrow> if d = CHR ''-'' then (True, v)
                                        else if d = CHR ''+'' then (False, v)
                                        else (False, t));
                 ds = takeWhile is_digit u
             in if ds = [] then (0, s)
                else ((if neg then - int (digits_value ds) else int (digits_value ds)),
                      dropWhile is_digit u))
          else (0, s))"

text \<open>
  The longest prefix that is an unsigned decimal literal (\<^verbatim>\<open>12\<close>, \<^verbatim>\<open>12.\<close>, \<^verbatim>\<open>12.5\<close>, \<^verbatim>\<open>.5\<close>,
  each with an optional exponent), with its exact value and the text after it.
\<close>

definition parse_unsigned_decimal :: "string \<Rightarrow> (rat \<times> string) option" where
  "parse_unsigned_decimal s =
     (let ip = takeWhile is_digit s;
          r1 = dropWhile is_digit s;
          (fp, r2) = (case r1 of
                        [] \<Rightarrow> ([], r1)
                      | c # t \<Rightarrow>
                          if c = CHR ''.'' \<and> (ip \<noteq> [] \<or> takeWhile is_digit t \<noteq> [])
                          then (takeWhile is_digit t, dropWhile is_digit t)
                          else ([], r1))
      in if ip = [] \<and> fp = [] then None
         else (let (e, r3) = parse_exponent r2
               in Some ((of_nat (digits_value ip)
                          + of_nat (digits_value fp) / 10 ^ length fp) * pow10 e, r3)))"

definition negate :: "number \<Rightarrow> number" where
  "negate n = (case n of NaN \<Rightarrow> NaN | Finite r \<Rightarrow> Finite (- r)
               | PosInfinity \<Rightarrow> NegInfinity | NegInfinity \<Rightarrow> PosInfinity)"

text \<open>A decimal literal with an optional sign, as the number it denotes; the second
  component is the unread text.\<close>

definition parse_signed_decimal :: "string \<Rightarrow> (number \<times> string) option" where
  "parse_signed_decimal s =
     (let (neg, u) = (case s of
                        [] \<Rightarrow> (False, s)
                      | c # t \<Rightarrow> if c = CHR ''-'' then (True, t)
                                 else if c = CHR ''+'' then (False, t)
                                 else (False, s));
          r = (if prefix ''Infinity'' u then Some (PosInfinity, drop 8 u)
               else map_option (\<lambda>(v, rest). (round_double v, rest)) (parse_unsigned_decimal u))
      in map_option (\<lambda>(n, rest). (if neg then negate n else n, rest)) r)"

text \<open>\<^verbatim>\<open>parseFloat(s)\<close>: leading white space is skipped, the longest numeric prefix is read.\<close>

definition parseFloat :: "string \<Rightarrow> number" where
  "parseFloat s = (case parse_signed_decimal (trimStart s) of
                     None \<Rightarrow> NaN
                   | Some (n, rest) \<Rightarrow> n)"

definition is_radix_digit :: "nat \<Rightarrow> char \<Rightarrow> bool" where
  "is_radix_digit b c =
     (let n = (of_char c :: nat)
      in (48 \<le> n \<and> n < 48 + min b 10)
         \<or> (b = 16 \<and> ((65 \<le> n \<and> n \<le> 70) \<or> (97 \<le> n \<and> n \<le> 102))))"

definition radix_digit_val :: "char \<Rightarrow> nat" where
  "radix_digit_val c =
     (let n = (of_char c :: nat)
      in if n \<le> 57 then n - 48 else if n \<le> 70 then n - 55 else n - 87)"

definition radix_value :: "nat \<Rightarrow> string \<Rightarrow> nat" where
  "radix_value b ds = foldl (\<lambda>a c. b * a + radix_digit_val c) 0 ds"

text \<open>
  The conversion of a string to a number by \<^verbatim>\<open>ToNumber\<close> (used by arithmetic on a string):
  the whole trimmed string must be a numeric literal, the empty string is 0.
\<close>

definition StringToNumber :: "string \<Rightarrow> number" where
  "StringToNumber s =
     (let t = trim s
      in if t = [] then Finite 0
         else (case t of
                 z # x # ds \<Rightarrow>
                   (let b = (if z \<noteq> CHR ''0'' then 0
                             else if x = CHR ''x'' \<or> x = CHR ''X'' then 16
                             else if x = CHR ''o'' \<or> x = CHR ''O'' then 8
                             else if x = CHR ''b'' \<or> x = CHR ''B'' then (2::nat)
                             else 0)
                    in if b \<noteq> 0 then
                         (if ds \<noteq> [] \<and> list_all (is_radix_digit b) ds
                          then round_double (of_nat (radix_value b ds)) else NaN)
                       else (case parse_signed_decimal t of
                               Some (n, []) \<Rightarrow> n
                             | _ \<Rightarrow> NaN))
               | _ \<Rightarrow> (case parse_signed_decimal t of
                         Some (n, []) \<Rightarrow> n
                       | _ \<Rightarrow> NaN)))"

fun ToNumber :: "js_value \<Rightarrow> number" where
  "ToNumber JUndefined = NaN"
| "ToNumber JNull = Finite 0"
| "ToNumber (JBool b) = Finite (if b then 1 else 0)"
| "ToNumber (JNum n) = n"
| "ToNumber (JStr s) = StringToNumber s"
| "ToNumber JObj = NaN"

subsection \<open>Arithmetic and comparison on numbers\<close>

definition isNaN :: "js_value \<Rightarrow> bool" where
  "isNaN v = (ToNumber v = NaN)"

text \<open>\<^verbatim>\<open>a <= b\<close> and \<^verbatim>\<open>a > b\<close> on numbers: every comparison with \<open>NaN\<close> is false.
  Comparison and absolute value are exact; subtraction and division round.\<close>

fun num_le :: "number \<Rightarrow> number \<Rightarrow> bool" where
  "num_le NaN _ = False"
| "num_le _ NaN = False"
| "num_le NegInfinity _ = True"
| "num_le _ PosInfinity = True"
| "num_le PosInfinity _ = False"
| "num_le _ NegInfinity = False"
| "num_le (Finite a) (Finite b) = (a \<le> b)"

fun num_gt :: "number \<Rightarrow> number \<Rightarrow> bool" where
  "num_gt NaN _ = False"
| "num_gt _ NaN = False"
| "num_gt NegInfinity _ = False"
| "num_gt _ PosInfinity = False"
| "num_gt PosInfinity _ = True"
| "num_gt _ NegInfinity = True"
| "num_gt (Finite a) (Finite b) = (a > b)"

fun num_sub :: "number \<Rightarrow> number \<Rightarrow> number" where
  "num_sub NaN _ = NaN"
| "num_sub _ NaN = NaN"
| "num_sub (Finite a) (Finite b) = round_double (a - b)"
| "num_sub (Finite a) PosInfinity = NegInfinity"
| "num_sub (Finite a) NegInfinity = PosInfinity"
| "num_sub PosInfinity PosInfinity = NaN"
| "num_sub PosInfinity _ = PosInfinity"
| "num_sub NegInfinity NegInfinity = NaN"
| "num_sub NegInfinity _ = NegInfinity"

fun num_abs :: "number \<Rightarrow> number" where
  "num_abs NaN = NaN"
| "num_abs (Finite a) = Finite \<bar>a\<bar>"
| "num_abs PosInfinity = PosInfinity"
| "num_abs NegInfinity = PosInfinity"

text \<open>
  Division. A finite value over zero is an infinity (of the sign of the numerator, the
  zero being \<open>+0\<close>), zero over zero is \<open>NaN\<close>.
\<close>

fun num_div :: "number \<Rightarrow> number \<Rightarrow> number" where
  "num_div NaN _ = NaN"
| "num_div _ NaN = NaN"
| "num_div (Finite a) (Finite b) =
     (if b = 0 then (if a = 0 then NaN else if 0 < a then PosInfinity else NegInfinity)
      else round_double (a / b))"
| "num_div (Finite a) _ = Finite 0"
| "num_div PosInfinity (Finite b) = (if 0 \<le> b then PosInfinity else NegInfinity)"
| "num_div NegInfinity (Finite b) = (if 0 \<le> b then NegInfinity else PosInfinity)"
| "num_div _ _ = NaN"

section \<open>Errors\<close>

text \<open>
  The classes of \<^verbatim>\<open>utils/errors.js\<close>, each with its message; a \<open>ValidationError\<close> also
  carries the name of the offending field (\<^verbatim>\<open>null\<close> by default). \<open>TypeError\<close> and
  \<open>SyntaxError\<close> are the language's own; \<open>ExternalError\<close> is a failure thrown by a
  collaborator (file system, AWS, OpenAI).
\<close>

datatype error =
    ValidationError string "string option"
  | DatabaseError string
  | LLMError string
  | OCRError string
  | TypeError string
  | SyntaxError string
  | ExternalError string

fun error_message :: "error \<Rightarrow> string" where
  "error_message (ValidationError m f) = m"
| "error_message (DatabaseError m) = m"
| "error_message (LLMError m) = m"
| "error_message (OCRError m) = m"
| "error_message (TypeError m) = m"
| "error_message (SyntaxError m) = m"
| "error_message (ExternalError m) = m"

fun error_field :: "error \<Rightarrow> string option" where
  "error_field (ValidationError m f) = f"
| "error_field _ = None"

fun is_ValidationError :: "error \<Rightarrow> bool" where
  "is_ValidationError (ValidationError m f) = True"
| "is_ValidationError _ = False"

section \<open>Dates\<close>

text \<open>
  A \<^verbatim>\<open>Date\<close> holds a time value: milliseconds since 1970-01-01T00:00:00Z, or \<open>NaN\<close> for an
  invalid date (\<open>None\<close> here). The calendar is the proleptic Gregorian one. The functions
  below are those of the language definition (\<open>Day\<close>, \<open>TimeWithinDay\<close>, \<open>YearFromTime\<close>,
  \<open>MonthFromTime\<close>, \<open>DateFromTime\<close>, \<open>MakeDay\<close>, \<open>MakeDate\<close>, \<open>TimeClip\<close>), computed with
  the usual era-based day arithmetic.
\<close>

definition msPerDay :: int where
  "msPerDay = 86400000"

definition days_from_civil :: "int \<Rightarrow> int \<Rightarrow> int \<Rightarrow> int" where
  "days_from_civil y m d =
     (let y' = (if m \<le> 2 then y - 1 else y);
          era = y' div 400;
          yoe = y' mod 400;
          doy = (153 * (if 2 < m then m - 3 else m + 9) + 2) div 5 + d - 1;
          doe = yoe * 365 + yoe div 4 - yoe div 100 + doy
      in era * 146097 + doe - 719468)"

definition civil_from_days :: "int \<Rightarrow> int \<times> int \<times> int" where
  "civil_from_days z0 =
     (let z = z0 + 719468;
          era = z div 146097;
          doe = z mod 146097;
          yoe = (doe - doe div 1460 + doe div 36524 - doe div 146096) div 365;
          doy = doe - (365 * yoe + yoe div 4 - yoe div 100);
          mp = (5 * doy + 2) div 153;
          d = doy - (153 * mp + 2) div 5 + 1;
          m = (if mp < 10 then mp + 3 else mp - 9);
          y = yoe + era * 400
      in (if m \<le> 2 then y + 1 else y, m, d))"

definition Day :: "int \<Rightarrow> int" where
  "Day t = t div msPerDay"

definition TimeWithinDay :: "int \<Rightarrow> int" where
  "TimeWithinDay t = t mod msPerDay"

definition YearFromTime :: "int \<Rightarrow> int" where
  "YearFromTime t = fst (civil_from_days (Day t))"

text \<open>Months are numbered from 0, as in the language.\<close>

definition MonthFromTime :: "int \<Rightarrow> int" where
  "MonthFromTime t = fst (snd (civil_from_days (Day t))) - 1"

definition DateFromTime :: "int \<Rightarrow> int" where
  "DateFromTime t = snd (snd (civil_from_days (Day t)))"

definition MakeDay :: "int \<Rightarrow> int \<Rightarrow> int \<Rightarrow> int" where
  "MakeDay year month dt = days_from_civil (year + month div 12) (month mod 12 + 1) 1 + dt - 1"

definition MakeDate :: "int \<Rightarrow> int \<Rightarrow> int" where
  "MakeDate day time = day * msPerDay + time"

definition TimeClip :: "int \<Rightarrow> int option" where
  "TimeClip t = (if \<bar>t\<bar> > 8640000000000000 then None else Some t)"

text \<open>\<open>TimeClip\<close> of a number: a finite value in range is cut to an integer, towards zero.\<close>

definition TimeClip_number :: "number \<Rightarrow> int option" where
  "TimeClip_number n =
     (case n of
        Finite r \<Rightarrow> if \<bar>r\<bar> > 8640000000000000 then None
                    else Some (if 0 \<le> r then \<lfloor>r\<rfloor> else \<lceil>r\<rceil>)
      | _ \<Rightarrow> None)"

definition isLeapYear :: "int \<Rightarrow> bool" where
  "isLeapYear y = (y mod 4 = 0 \<and> (y mod 100 \<noteq> 0 \<or> y mod 400 = 0))"

definition daysInMonth :: "int \<Rightarrow> int \<Rightarrow> int" where
  "daysInMonth y m =
     (if m = 2 then (if isLeapYear y then 29 else 28)
      else if m = 4 \<or> m = 6 \<or> m = 9 \<or> m = 11 then 30 else 31)"

text \<open>
  A date-only ISO string \<^verbatim>\<open>YYYY-MM-DD\<close> naming a day that exists denotes midnight UTC of
  that day. This is the one input format whose meaning the language fixes.
\<close>

definition parse_iso_date :: "string \<Rightarrow> int option" where
  "parse_iso_date s =
     (if length s = 10 \<and> list_all is_digit (take 4 s) \<and> s ! 4 = CHR ''-''
         \<and> list_all is_digit (take 2 (drop 5 s)) \<and> s ! 7 = CHR ''-''
         \<and> list_all is_digit (drop 8 s)
      then (let y = int (digits_value (take 4 s));
                m = int (digits_value (take 2 (drop 5 s)));
                d = int (digits_value (drop 8 s))
            in if 1 \<le> m \<and> m \<le> 12 \<and> 1 \<le> d \<and> d \<le> daysInMonth y m
               then Some (days_from_civil y m d * msPerDay) else None)
      else None)"

definition digit_char :: "nat \<Rightarrow> char" where
  "digit_char n = char_of (48 + n mod 10)"

definition pad2 :: "nat \<Rightarrow> string" where
  "pad2 n = [digit_char (n div 10), digit_char n]"

definition pad3 :: "nat \<Rightarrow> string" where
  "pad3 n = [digit_char (n div 100), digit_char (n div 10), digit_char n]"

definition pad4 :: "nat \<Rightarrow> string" where
  "pad4 n = [digit_char (n div 1000), digit_char (n div 100), digit_char (n div 10), digit_char n]"

definition pad6 :: "nat \<Rightarrow> string" where
  "pad6 n = [digit_char (n div 100000), digit_char (n div 10000), digit_char (n div 1000),
             digit_char (n div 100), digit_char (n div 10), digit_char n]"

text \<open>
  The date part of \<^verbatim>\<open>toISOString()\<close>: the UTC year, month and day of the instant. Years
  0 to 9999 are printed with four digits, all others with a sign and six digits.
\<close>

definition iso_year :: "int \<Rightarrow> string" where
  "iso_year y = (if 0 \<le> y \<and> y \<le> 9999 then pad4 (nat y)
                 else (if y < 0 then ''-'' else ''+'') @ pad6 (nat \<bar>y\<bar>))"

definition iso_date :: "int \<Rightarrow> string" where
  "iso_date t = iso_year (YearFromTime t) @ ''-'' @ pad2 (nat (MonthFromTime t + 1))
                 @ ''-'' @ pad2 (nat (DateFromTime t))"

definition iso_time :: "int \<Rightarrow> string" where
  "iso_time t =
     (let ms = nat (TimeWithinDay t)
      in pad2 (ms div 3600000) @ '':'' @ pad2 (ms div 60000 mod 60) @ '':''
         @ pad2 (ms div 1000 mod 60) @ ''.'' @ pad3 (ms mod 1000))"

definition toISOString :: "int \<Rightarrow> string" where
  "toISOString t = iso_date t @ ''T'' @ iso_time t @ ''Z''"

text \<open>\<^verbatim>\<open>s.split('T')[0]\<close>\<close>

definition split_T_head :: "string \<Rightarrow> string" where
  "split_T_head s = takeWhile (\<lambda>c. c \<noteq> CHR ''T'') s"

section \<open>The environment of a request\<close>

text \<open>
  What a request reads from outside the program: the clock, the time zone of the
  process, and the answers of the library functions and services whose results the
  program does not determine.
  \<^item> \<open>LocalTZA_utc t\<close> is the offset of local time at the UTC instant \<open>t\<close>,
    \<open>LocalTZA_local t\<close> the offset that applies to the local time value \<open>t\<close>.
  \<^item> \<open>Date_parse_other\<close> is \<^verbatim>\<open>Date.parse\<close> on the strings that are not a date-only ISO
    string; \<open>None\<close> is \<open>NaN\<close>.
  \<^item> \<open>Number_toString\<close> and \<open>Number_toFixed2\<close> print a number.
\<close>

record clock_env =
  clock_validate :: int
  clock_today :: int
  clock_put_timestamp :: int
  clock_put_now :: int
  LocalTZA_utc :: "int \<Rightarrow> int"
  LocalTZA_local :: "int \<Rightarrow> int"
  Date_parse_other :: "string \<Rightarrow> int option"
  Number_toString :: "number \<Rightarrow> string"
  Number_toFixed2 :: "number \<Rightarrow> string"

definition LocalTime :: "'a clock_env_scheme \<Rightarrow> int \<Rightarrow> int" where
  "LocalTime env t = t + LocalTZA_utc env t"

definition UTC :: "'a clock_env_scheme \<Rightarrow> int \<Rightarrow> int" where
  "UTC env t = t - LocalTZA_local env t"

definition Date_parse :: "'a clock_env_scheme \<Rightarrow> string \<Rightarrow> int option" where
  "Date_parse env s = (case parse_iso_date s of
                         Some t \<Rightarrow> Some t
                       | None \<Rightarrow> Date_parse_other env s)"

text \<open>\<^verbatim>\<open>String(v)\<close> and the conversion inside a template literal.\<close>

fun ToString :: "'a clock_env_scheme \<Rightarrow> js_value \<Rightarrow> string" where
  "ToString env JUndefined = ''undefined''"
| "ToString env JNull = ''null''"
| "ToString env (JBool b) = (if b then ''true'' else ''false'')"
| "ToString env (JNum n) = Number_toString env n"
| "ToString env (JStr s) = s"
| "ToString env JObj = ''[object Object]''"

text \<open>
  \<^verbatim>\<open>new Date(v)\<close>: a string is parsed, an object is first turned into the string
  \<^verbatim>\<open>[object Object]\<close>, anything else is converted to a number of milliseconds.
\<close>

fun Date_new :: "'a clock_env_scheme \<Rightarrow> js_value \<Rightarrow> int option" where
  "Date_new env (JStr s) = Date_parse env s"
| "Date_new env JObj = Date_parse env ''[object Object]''"
| "Date_new env v = TimeClip_number (ToNumber v)"

text \<open>
  \<^verbatim>\<open>d.setFullYear(d.getFullYear() + 1)\<close> on a valid date: the local calendar fields are
  kept and the year is advanced; a day that does not exist in the new year rolls over.
\<close>

definition getFullYear :: "'a clock_env_scheme \<Rightarrow> int \<Rightarrow> int" where
  "getFullYear env t = YearFromTime (LocalTime env t)"

definition setFullYear :: "'a clock_env_scheme \<Rightarrow> int \<Rightarrow> int \<Rightarrow> int option" where
  "setFullYear env t0 y =
     (let t = LocalTime env t0;
          newDate = MakeDate (MakeDay y (MonthFromTime t) (DateFromTime t)) (TimeWithinDay t)
      in TimeClip (UTC env newDate))"

text \<open>\<^verbatim>\<open>a > b\<close> on two dates: false when either is invalid.\<close>

definition date_gt :: "int option \<Rightarrow> int option \<Rightarrow> bool" where
  "date_gt a b = (case (a, b) of (Some x, Some y) \<Rightarrow> x > y | _ \<Rightarrow> False)"

section \<open>Field Validator (\<^verbatim>\<open>utils/validation.js\<close>)\<close>

text \<open>
  A candidate as the extractor hands it over: an object whose fields may hold anything.
  An absent key reads as \<open>JUndefined\<close>. Only these nine keys are ever read or written.
\<close>

record raw_transaction =
  raw_amount :: js_value
  raw_date :: js_value
  raw_merchant :: js_value
  raw_category :: js_value
  raw_type :: js_value
  raw_currency :: js_value
  raw_description :: js_value
  raw_source :: js_value
  raw_rawText :: js_value

text \<open>The object that \<^verbatim>\<open>validateTransaction\<close> builds.\<close>

record transaction_data =
  amount :: js_value
  date :: string
  type :: string
  merchant :: string
  category :: string
  currency :: string
  description :: string
  source :: js_value
  rawText :: js_value

definition validateAmount :: "js_value \<Rightarrow> error + js_value" where
  "validateAmount a =
     (if a = JUndefined \<or> a = JNull
      then Inl (ValidationError ''Amount is required'' (Some ''amount''))
      else (let numAmount = (case a of JStr s \<Rightarrow> JNum (parseFloat s) | _ \<Rightarrow> a)
            in if isNaN numAmount
               then Inl (ValidationError ''Amount must be a valid number'' (Some ''amount''))
               else if num_le (ToNumber numAmount) (Finite 0)
               then Inl (ValidationError ''Amount must be greater than 0'' (Some ''amount''))
               else if num_gt (ToNumber numAmount) (Finite 1000000000)
               then Inl (ValidationError ''Amount is too large (max: 1,000,000,000)''
                          (Some ''amount''))
               else Inr numAmount))"

text \<open>The instant \<^verbatim>\<open>oneYearFromNow\<close> of \<^verbatim>\<open>validateDate\<close>.\<close>

definition oneYearFromNow :: "'a clock_env_scheme \<Rightarrow> int option" where
  "oneYearFromNow env =
     setFullYear env (clock_validate env) (getFullYear env (clock_validate env) + 1)"

definition validateDate :: "'a clock_env_scheme \<Rightarrow> js_value \<Rightarrow> error + string" where
  "validateDate env dateString =
     (if \<not> truthy dateString
      then Inl (ValidationError ''Date is required'' (Some ''date''))
      else (let d = Date_new env dateString
            in case d of
                 None \<Rightarrow>
                   Inl (ValidationError ''Invalid date format. Use ISO 8601 format (YYYY-MM-DD)''
                         (Some ''date''))
               | Some t \<Rightarrow>
                   if date_gt d (oneYearFromNow env)
                   then Inl (ValidationError ''Date cannot be more than 1 year in the future''
                              (Some ''date''))
                   else Inr (split_T_head (toISOString t))))"

definition validTypes :: "string list" where
  "validTypes = [''income'', ''expense'']"

text \<open>
  On a truthy value that is not a string, \<^verbatim>\<open>type.toLowerCase()\<close> is a call of
  \<^verbatim>\<open>undefined\<close>: a \<open>TypeError\<close>.
\<close>

definition validateTransactionType :: "js_value \<Rightarrow> error + string" where
  "validateTransactionType t =
     (if \<not> truthy t
      then Inl (ValidationError ''Transaction type is required'' (Some ''type''))
      else (case t of
              JStr s \<Rightarrow>
                (let lowerType = toLowerCase s
                 in if lowerType \<notin> set validTypes
                    then Inl (ValidationError
                               (''Transaction type must be either '' @ [CHR 0x27] @ ''income''
                                @ [CHR 0x27] @ '' or '' @ [CHR 0x27] @ ''expense'' @ [CHR 0x27]
                                @ ''. Received: '' @ s)
                               (Some ''type''))
                    else Inr lowerType)
            | _ \<Rightarrow> Inl (TypeError ''type.toLowerCase is not a function'')))"

definition validateMerchant :: "js_value \<Rightarrow> error + string" where
  "validateMerchant m =
     (case m of
        JStr s \<Rightarrow>
          if s = []
          then Inl (ValidationError ''Merchant name is required and must be a string''
                     (Some ''merchant''))
          else (let trimmed = trim s
                in if length trimmed = 0
                   then Inl (ValidationError ''Merchant name cannot be empty'' (Some ''merchant''))
                   else if length trimmed > 200
                   then Inl (ValidationError ''Merchant name is too long (max 200 characters)''
                              (Some ''merchant''))
                   else Inr trimmed)
      | _ \<Rightarrow> Inl (ValidationError ''Merchant name is required and must be a string''
                  (Some ''merchant'')))"

definition validateCategory :: "js_value \<Rightarrow> error + string" where
  "validateCategory c =
     (case c of
        JStr s \<Rightarrow>
          if s = []
          then Inl (ValidationError ''Category is required and must be a string''
                     (Some ''category''))
          else (let trimmed = trim s
                in if length trimmed = 0
                   then Inl (ValidationError ''Category cannot be empty'' (Some ''category''))
                   else if length trimmed > 100
                   then Inl (ValidationError ''Category is too long (max 100 characters)''
                              (Some ''category''))
                   else Inr trimmed)
      | _ \<Rightarrow> Inl (ValidationError ''Category is required and must be a string''
                  (Some ''category'')))"

text \<open>\<^verbatim>\<open>/^[A-Z]{3}$/.test(s)\<close>\<close>

definition three_capitals :: "string \<Rightarrow> bool" where
  "three_capitals s = (length s = 3 \<and> list_all is_upper s)"

definition validateCurrency :: "js_value \<Rightarrow> error + string" where
  "validateCurrency c =
     (case c of
        JStr s \<Rightarrow>
          if s = [] then Inr ''USD''
          else (let upperCurrency = trim (toUpperCase s)
                in if length upperCurrency \<noteq> 3
                   then Inl (ValidationError ''Currency must be a 3-letter code (e.g., USD, EUR)''
                              (Some ''currency''))
                   else if \<not> three_capitals upperCurrency
                   then Inl (ValidationError ''Currency code must contain only letters''
                              (Some ''currency''))
                   else Inr upperCurrency)
      | _ \<Rightarrow> Inr ''USD'')"

text \<open>
  The body of the \<^verbatim>\<open>try\<close> block of \<^verbatim>\<open>validateTransaction\<close>: the field validators run in
  the order in which the object literal lists them, and the first failure ends the run.
\<close>

definition validateTransaction_body ::
  "'a clock_env_scheme \<Rightarrow> raw_transaction \<Rightarrow> error + transaction_data" where
  "validateTransaction_body env t =
     (case validateAmount (raw_amount t) of
        Inl e \<Rightarrow> Inl e
      | Inr a \<Rightarrow>
     (case validateDate env (raw_date t) of
        Inl e \<Rightarrow> Inl e
      | Inr d \<Rightarrow>
     (case validateTransactionType (raw_type t) of
        Inl e \<Rightarrow> Inl e
      | Inr ty \<Rightarrow>
     (case validateMerchant (raw_merchant t) of
        Inl e \<Rightarrow> Inl e
      | Inr m \<Rightarrow>
     (case validateCategory (raw_category t) of
        Inl e \<Rightarrow> Inl e
      | Inr c \<Rightarrow>
     (case validateCurrency (js_or (raw_currency t) (JStr ''USD'')) of
        Inl e \<Rightarrow> Inl e
      | Inr cur \<Rightarrow>
          (let validated =
                 \<lparr> amount = a, date = d, type = ty, merchant = m, category = c, currency = cur,
                   description = (if truthy (raw_description t)
                                  then trim (ToString env (raw_description t)) else []),
                   source = js_or (raw_source t) (JStr ''manual''),
                   rawText = js_or (raw_rawText t) (JStr []) \<rparr>
           in if length (description validated) > 500
              then Inl (ValidationError ''Description is too long (max 500 characters)''
                         (Some ''description''))
              else Inr validated)))))))"

text \<open>
  The \<^verbatim>\<open>catch\<close> block: a \<open>ValidationError\<close> is thrown again as it is, anything else is
  wrapped in a \<open>ValidationError\<close> without a field.
\<close>

definition validateTransaction ::
  "'a clock_env_scheme \<Rightarrow> raw_transaction \<Rightarrow> error + transaction_data" where
  "validateTransaction env t =
     (case validateTransaction_body env t of
        Inr v \<Rightarrow> Inr v
      | Inl e \<Rightarrow> if is_ValidationError e then Inl e
                 else Inl (ValidationError (''Validation failed: '' @ error_message e) None))"

definition validateUserId :: "js_value \<Rightarrow> error + string" where
  "validateUserId u =
     (case u of
        JStr s \<Rightarrow>
          if s = []
          then Inl (ValidationError ''User ID is required and must be a string'' (Some ''userId''))
          else (let trimmed = trim s
                in if length trimmed = 0
                   then Inl (ValidationError ''User ID cannot be empty'' (Some ''userId''))
                   else if length trimmed > 100
                   then Inl (ValidationError ''User ID is too long (max 100 characters)''
                              (Some ''userId''))
                   else Inr trimmed)
      | _ \<Rightarrow> Inl (ValidationError ''User ID is required and must be a string'' (Some ''userId'')))"

section \<open>Transaction Store (\<^verbatim>\<open>services/dynamodbService.js\<close>)\<close>

text \<open>The stored record: the validated data and what \<^verbatim>\<open>createTransaction\<close> adds.\<close>

record item = transaction_data +
  userId :: string
  transactionId :: string
  timestamp :: int
  status :: string
  createdAt :: string
  updatedAt :: string

datatype aws_error = AwsError (aws_code: string) (aws_message: string)

subsection \<open>The table service\<close>

text \<open>
  The table is the list of its items, in the order in which a scan reads them. Its
  primary key is \<open>(userId, transactionId)\<close>: \<open>userId\<close> is the partition key and
  \<open>transactionId\<close> the sort key. The four requests the program sends:
  \<^item> a query on the index \<^verbatim>\<open>merchant-date-index\<close> returns the items with that merchant and
    date;
  \<^item> a scan with \<^verbatim>\<open>Limit\<close> reads that many items and returns those of them that pass the
    filter expression: the limit counts the items read, not the items returned;
  \<^item> a query on the table returns the items of one partition in the order of the sort
    key, descending when \<^verbatim>\<open>ScanIndexForward\<close> is false, cut at \<^verbatim>\<open>Limit\<close>;
  \<^item> a put replaces the item with the same primary key or adds the item.
  The size limit of one response page is not modelled.
\<close>

definition dynamo_query_index :: "item list \<Rightarrow> string \<Rightarrow> string \<Rightarrow> item list" where
  "dynamo_query_index tbl m d = filter (\<lambda>i. merchant i = m \<and> date i = d) tbl"

definition dynamo_scan :: "item list \<Rightarrow> nat \<Rightarrow> (item \<Rightarrow> bool) \<Rightarrow> item list" where
  "dynamo_scan tbl limit flt = filter flt (take limit tbl)"

definition dynamo_query_partition_desc :: "item list \<Rightarrow> string \<Rightarrow> nat \<Rightarrow> item list" where
  "dynamo_query_partition_desc tbl u limit =
     take limit (rev (sort_key transactionId (filter (\<lambda>i. userId i = u) tbl)))"

definition dynamo_put :: "item list \<Rightarrow> item \<Rightarrow> item list" where
  "dynamo_put tbl it =
     filter (\<lambda>i. \<not> (userId i = userId it \<and> transactionId i = transactionId it)) tbl @ [it]"

text \<open>
  The service may refuse a request. Whether and how it does is part of the environment:
  \<open>None\<close> means that the request is served.
\<close>

record store_env = clock_env +
  uuidv4 :: string
  put_failure :: "aws_error option"
  query_partition_failure :: "aws_error option"
  query_index_failure :: "aws_error option"
  scan_failure :: "aws_error option"
  limit_rejected :: aws_error

subsection \<open>The state a request changes\<close>

datatype event =
    OpenAIRequest string
  | TextractRequest string
  | CreateTransactionCall string
  | CleanupImageFileCall string

text \<open>
  \<open>table\<close> is the table, \<open>files\<close> maps the path of an uploaded file to its size in bytes,
  \<open>trace\<close> lists, oldest first, the calls that the properties below count.
\<close>

record world =
  table :: "item list"
  files :: "string \<Rightarrow> nat option"
  trace :: "event list"

definition log_event :: "event \<Rightarrow> world \<Rightarrow> world" where
  "log_event e w = w\<lparr>trace := trace w @ [e]\<rparr>"

text \<open>The number of calls of \<^verbatim>\<open>createTransaction\<close> and of \<^verbatim>\<open>cleanupImageFile\<close> so far.\<close>

fun is_create_call :: "event \<Rightarrow> bool" where
  "is_create_call (CreateTransactionCall u) = True"
| "is_create_call e = False"

fun is_cleanup_call :: "event \<Rightarrow> bool" where
  "is_cleanup_call (CleanupImageFileCall p) = True"
| "is_cleanup_call e = False"

fun is_textract_request :: "event \<Rightarrow> bool" where
  "is_textract_request (TextractRequest p) = True"
| "is_textract_request e = False"

definition create_calls :: "world \<Rightarrow> nat" where
  "create_calls w = length (filter is_create_call (trace w))"

definition cleanup_calls :: "world \<Rightarrow> nat" where
  "cleanup_calls w = length (filter is_cleanup_call (trace w))"

definition textract_requests :: "world \<Rightarrow> nat" where
  "textract_requests w = length (filter is_textract_request (trace w))"

subsection \<open>The service functions\<close>

text \<open>The item that \<^verbatim>\<open>createTransaction\<close> builds.\<close>

definition new_item :: "'a store_env_scheme \<Rightarrow> string \<Rightarrow> transaction_data \<Rightarrow> item" where
  "new_item env uid transactionData =
     (let tid = ''tx-'' @ uuidv4 env;
          ts = clock_put_timestamp env;
          now = toISOString (clock_put_now env)
      in \<lparr> amount = amount transactionData,
           date = date transactionData,
           type = type transactionData,
           merchant = merchant transactionData,
           category = category transactionData,
           currency = str_or (currency transactionData) ''USD'',
           description = str_or (description transactionData) [],
           source = js_or (source transactionData) (JStr ''manual''),
           rawText = js_or (rawText transactionData) (JStr []),
           userId = uid,
           transactionId = tid,
           timestamp = ts,
           status = ''confirmed'',
           createdAt = now,
           updatedAt = now \<rparr>)"

definition createTransaction ::
  "'a store_env_scheme \<Rightarrow> world \<Rightarrow> string \<Rightarrow> transaction_data \<Rightarrow> (error + item) \<times> world" where
  "createTransaction env w0 uid transactionData =
     (let w = log_event (CreateTransactionCall uid) w0;
          it = new_item env uid transactionData
      in case put_failure env of
           Some err \<Rightarrow>
             (Inl (DatabaseError (''Failed to create transaction: '' @ aws_message err)), w)
         | None \<Rightarrow> (Inr it, w\<lparr>table := dynamo_put (table w) it\<rparr>))"

text \<open>
  \<^verbatim>\<open>getUserTransactions(userId, limit = 100)\<close>; \<open>None\<close> is an omitted limit. The service
  rejects a limit below 1.
\<close>

definition getUserTransactions ::
  "'a store_env_scheme \<Rightarrow> item list \<Rightarrow> string \<Rightarrow> int option \<Rightarrow> error + item list" where
  "getUserTransactions env tbl uid limit_opt =
     (let limit = (case limit_opt of None \<Rightarrow> 100 | Some n \<Rightarrow> n)
      in case (if limit < 1 then Some (limit_rejected env) else query_partition_failure env) of
           Some err \<Rightarrow>
             Inl (DatabaseError (''Failed to get user transactions: '' @ aws_message err))
         | None \<Rightarrow> Inr (dynamo_query_partition_desc tbl uid (nat limit)))"

text \<open>The filter callback of both duplicate checks, after the test of the owner.\<close>

definition tolerance :: number where
  "tolerance = round_double (5 / 100)"

definition within_tolerance :: "js_value \<Rightarrow> js_value \<Rightarrow> bool" where
  "within_tolerance item_amount amt =
     (let amountDifference = num_abs (num_sub (ToNumber item_amount) (ToNumber amt));
          percentDifference = num_div amountDifference (ToNumber amt)
      in num_le percentDifference tolerance)"

definition checkForDuplicatesFallback ::
  "'a store_env_scheme \<Rightarrow> item list \<Rightarrow> string \<Rightarrow> transaction_data \<Rightarrow> error + item list" where
  "checkForDuplicatesFallback env tbl uid transactionData =
     (case scan_failure env of
        Some err \<Rightarrow>
          Inl (DatabaseError (''Failed to check for duplicates (fallback): '' @ aws_message err))
      | None \<Rightarrow>
          Inr (filter (\<lambda>it. within_tolerance (amount it) (amount transactionData))
                (dynamo_scan tbl 100
                   (\<lambda>i. userId i = uid \<and> merchant i = merchant transactionData
                        \<and> date i = date transactionData))))"

definition checkForDuplicates ::
  "'a store_env_scheme \<Rightarrow> item list \<Rightarrow> string \<Rightarrow> transaction_data \<Rightarrow> error + item list" where
  "checkForDuplicates env tbl uid transactionData =
     (case query_index_failure env of
        None \<Rightarrow>
          Inr (filter (\<lambda>it. if userId it \<noteq> uid then False
                             else within_tolerance (amount it) (amount transactionData))
                (dynamo_query_index tbl (merchant transactionData) (date transactionData)))
      | Some err \<Rightarrow>
          if aws_code err = ''ResourceNotFoundException'' \<or> str_includes (aws_message err) ''index''
          then checkForDuplicatesFallback env tbl uid transactionData
          else Inl (DatabaseError (''Failed to check for duplicates: '' @ aws_message err)))"

section \<open>Structured Extractor (\<^verbatim>\<open>services/llmServices.js\<close>)\<close>

text \<open>
  What \<^verbatim>\<open>JSON.parse\<close> returns: \<^verbatim>\<open>null\<close>, an object (seen through the nine keys of a
  candidate), or something else (an array, a string, a number, a boolean), from which
  none of the keys can be read.
\<close>

datatype parsed = ParsedNull | ParsedObject raw_transaction | ParsedOther

text \<open>
  A failed completion request: an error that carries an HTTP response (status and
  message), an \<^verbatim>\<open>OpenAI.APIError\<close> without one (status and message), or any other error.
\<close>

datatype openai_failure =
    HttpFailure nat string
  | APIFailure nat string
  | OtherFailure string

record block =
  BlockType :: string
  Text :: "string option"

text \<open>
  The rest of the environment.
  \<^item> \<open>openai_completion\<close> answers a request with the content of the first choice
    (\<open>None\<close> when the response has none) or fails.
  \<^item> \<open>JSON_parse_accepting\<close> is \<^verbatim>\<open>JSON.parse\<close> on the texts that begin like a JSON value;
    \<open>None\<close> is a syntax error. \<open>JSON_SyntaxError_message\<close> is the message of that error,
    \<open>JSON_stringify\<close> is \<^verbatim>\<open>JSON.stringify\<close>.
  \<^item> \<open>readFile_failure\<close> and \<open>unlink_failure\<close> are the failures of the file system,
    \<open>textract_response\<close> is the answer of the recognition service: the list of blocks
    (\<open>None\<close> when the response has none) or a failure.
\<close>

record env = store_env +
  openai_key_configured :: bool
  openai_completion :: "string \<Rightarrow> openai_failure + string option"
  JSON_parse_accepting :: "string \<Rightarrow> parsed option"
  JSON_SyntaxError_message :: "string \<Rightarrow> string"
  JSON_stringify :: "parsed \<Rightarrow> string"
  readFile_failure :: "string option"
  unlink_failure :: "string option"
  textract_response :: "aws_error + block list option"

definition user_message :: "string \<Rightarrow> string" where
  "user_message text = ''Extract transaction information from this text: '' @ text"

text \<open>\<^verbatim>\<open>s.replace(/\n?/g, '')\<close>: every line feed matches and is removed; the empty matches
  in between remove nothing.\<close>

definition remove_newlines :: "string \<Rightarrow> string" where
  "remove_newlines s = filter (\<lambda>c. c \<noteq> CHR 0x0A) s"

text \<open>\<^verbatim>\<open>s.replace(/```\n?/g, '')\<close>: every run of three backticks is removed, from left to
  right, together with a line feed that follows it.\<close>

fun remove_fences :: "string \<Rightarrow> string" where
  "remove_fences (a # b # c # rest) =
     (if a = CHR 0x60 \<and> b = CHR 0x60 \<and> c = CHR 0x60
      then (case rest of
              [] \<Rightarrow> []
            | n # r \<Rightarrow> if n = CHR 0x0A then remove_fences r else remove_fences (n # r))
      else a # remove_fences (b # c # rest))"
| "remove_fences s = s"

definition cleanJson :: "string \<Rightarrow> string" where
  "cleanJson responseContent = trim (remove_fences (remove_newlines responseContent))"

text \<open>
  A JSON text is a value between optional white space, and a value begins with a brace,
  a bracket, a double quote, a minus sign, a digit, or the first letter of \<^verbatim>\<open>true\<close>,
  \<^verbatim>\<open>false\<close> or \<^verbatim>\<open>null\<close>. \<^verbatim>\<open>JSON.parse\<close> rejects every other text.
\<close>

definition json_space :: "char \<Rightarrow> bool" where
  "json_space c = (c = CHR 0x20 \<or> c = CHR 0x09 \<or> c = CHR 0x0A \<or> c = CHR 0x0D)"

definition json_value_start :: "string \<Rightarrow> bool" where
  "json_value_start s =
     (case dropWhile json_space s of
        [] \<Rightarrow> False
      | c # rest \<Rightarrow> c \<in> set ''{[-0123456789tfn'' \<or> c = CHR 0x22)"

definition JSON_parse :: "'a env_scheme \<Rightarrow> string \<Rightarrow> error + parsed" where
  "JSON_parse env s =
     (if \<not> json_value_start s then Inl (SyntaxError (JSON_SyntaxError_message env s))
      else (case JSON_parse_accepting env s of
              None \<Rightarrow> Inl (SyntaxError (JSON_SyntaxError_message env s))
            | Some v \<Rightarrow> Inr v))"

definition requiredFields :: "string list" where
  "requiredFields = [''amount'', ''date'', ''merchant'', ''category'', ''type'']"

text \<open>\<^verbatim>\<open>transactionData[field]\<close> on an object, for the names of the required fields.\<close>

definition get_field :: "raw_transaction \<Rightarrow> string \<Rightarrow> js_value" where
  "get_field t f =
     (if f = ''amount'' then raw_amount t
      else if f = ''date'' then raw_date t
      else if f = ''merchant'' then raw_merchant t
      else if f = ''category'' then raw_category t
      else if f = ''type'' then raw_type t
      else JUndefined)"

text \<open>
  \<^verbatim>\<open>requiredFields.filter(field => data[field] === undefined || data[field] === null)\<close>,
  given how a field of the data is read.
\<close>

definition missingFields :: "(string \<Rightarrow> js_value) \<Rightarrow> string list" where
  "missingFields rd = filter (\<lambda>field. rd field = JUndefined \<or> rd field = JNull) requiredFields"

text \<open>\<^verbatim>\<open>/^\d{4}-\d{2}-\d{2}$/.test(s)\<close>\<close>

definition iso_date_shape :: "string \<Rightarrow> bool" where
  "iso_date_shape s =
     (length s = 10 \<and> list_all is_digit (take 4 s) \<and> s ! 4 = CHR ''-''
      \<and> list_all is_digit (take 2 (drop 5 s)) \<and> s ! 7 = CHR ''-''
      \<and> list_all is_digit (drop 8 s))"

definition getTodayDate :: "'a clock_env_scheme \<Rightarrow> string" where
  "getTodayDate env = split_T_head (toISOString (clock_today env))"

text \<open>What the function does to the parsed object once no required field is missing.\<close>

definition postprocess :: "'a clock_env_scheme \<Rightarrow> raw_transaction \<Rightarrow> raw_transaction" where
  "postprocess env t0 =
     (let t1 = (case raw_amount t0 of
                  JStr s \<Rightarrow> t0\<lparr>raw_amount := JNum (parseFloat s)\<rparr>
                | _ \<Rightarrow> t0);
          t2 = (if truthy (raw_date t1) \<and> \<not> iso_date_shape (ToString env (raw_date t1))
                then (case Date_new env (raw_date t1) of
                        Some parsedDate \<Rightarrow> t1\<lparr>raw_date := JStr (split_T_head (toISOString parsedDate))\<rparr>
                      | None \<Rightarrow> t1\<lparr>raw_date := JStr (getTodayDate env)\<rparr>)
                else t1);
          t3 = t2\<lparr>raw_currency := js_or (raw_currency t2) (JStr ''USD'')\<rparr>
      in t3\<lparr>raw_description := js_or (raw_description t3) (JStr [])\<rparr>)"

text \<open>The outer \<^verbatim>\<open>catch\<close> block: what becomes of an error that is not an \<open>LLMError\<close>.\<close>

definition llm_failure :: "openai_failure \<Rightarrow> error" where
  "llm_failure f =
     (case f of
        HttpFailure statusCode errorMessage \<Rightarrow>
          if statusCode = 401
          then LLMError ''OpenAI API key is invalid. Please check your OPENAI_API_KEY in .env file.''
          else if statusCode = 429
          then LLMError ''OpenAI API rate limit exceeded. Please try again later.''
          else if statusCode = 500
          then LLMError ''OpenAI API server error. Please try again later.''
          else if statusCode = 503
          then LLMError ''OpenAI API service is temporarily unavailable. Please try again later.''
          else LLMError (''OpenAI API error: '' @ errorMessage)
      | APIFailure st msg \<Rightarrow>
          if st = 401 then LLMError ''OpenAI API key is invalid''
          else if st = 429 then LLMError ''OpenAI API rate limit exceeded''
          else LLMError (''OpenAI API error: '' @ msg)
      | OtherFailure msg \<Rightarrow> LLMError (''Failed to extract transaction data: '' @ msg))"

definition missing_fields_message :: "'a env_scheme \<Rightarrow> string list \<Rightarrow> parsed \<Rightarrow> string" where
  "missing_fields_message env missing p =
     ''Missing required fields in LLM response: '' @ join '', '' missing
       @ ''. Response: '' @ JSON_stringify env p"

text \<open>
  From the parsed response to the result: the check of the required fields and the
  post-processing. Reading a property of \<^verbatim>\<open>null\<close> throws a \<open>TypeError\<close>, which the outer
  \<^verbatim>\<open>catch\<close> block wraps; an array or a primitive value has none of the keys, so that
  all five are missing there and the test of the length always succeeds.
\<close>

definition check_and_complete :: "'a env_scheme \<Rightarrow> parsed \<Rightarrow> error + raw_transaction" where
  "check_and_complete env p =
     (case p of
        ParsedNull \<Rightarrow>
          Inl (llm_failure (OtherFailure
                 (''Cannot read properties of null (reading '' @ [CHR 0x27] @ hd requiredFields
                  @ [CHR 0x27] @ '')'')))
      | ParsedOther \<Rightarrow>
          (let missing = missingFields (\<lambda>field. JUndefined)
           in if length missing > 0 then Inl (LLMError (missing_fields_message env missing p))
              else Inl (llm_failure (OtherFailure ''Cannot create property'')))
      | ParsedObject t \<Rightarrow>
          (let missing = missingFields (get_field t)
           in if length missing > 0 then Inl (LLMError (missing_fields_message env missing p))
              else Inr (postprocess env t)))"

definition extractTransactionFromText ::
  "'a env_scheme \<Rightarrow> world \<Rightarrow> js_value \<Rightarrow> (error + raw_transaction) \<times> world" where
  "extractTransactionFromText env w text =
     (case text of
        JStr s \<Rightarrow>
          if s = [] \<or> length (trim s) = 0
          then (Inl (LLMError ''Text input is required and cannot be empty''), w)
          else if \<not> openai_key_configured env
          then (Inl (LLMError
                  ''OpenAI API key is not configured. Please set OPENAI_API_KEY in your .env file.''), w)
          else (let w1 = log_event (OpenAIRequest (user_message s)) w
                in case openai_completion env (user_message s) of
                     Inl f \<Rightarrow> (Inl (llm_failure f), w1)
                   | Inr None \<Rightarrow> (Inl (LLMError ''Empty response from OpenAI''), w1)
                   | Inr (Some responseContent) \<Rightarrow>
                       if responseContent = []
                       then (Inl (LLMError ''Empty response from OpenAI''), w1)
                       else (case JSON_parse env (cleanJson responseContent) of
                               Inl parseError \<Rightarrow>
                                 (Inl (LLMError (''Failed to parse JSON response from OpenAI: ''
                                                 @ error_message parseError)), w1)
                             | Inr p \<Rightarrow> (check_and_complete env p, w1)))
      | _ \<Rightarrow> (Inl (LLMError ''Text input is required and cannot be empty''), w))"

section \<open>Text Extractor (\<^verbatim>\<open>services/ocrServices.js\<close>)\<close>

definition maxSize :: nat where
  "maxSize = 10 * 1024 * 1024"

text \<open>The \<^verbatim>\<open>catch\<close> block of \<^verbatim>\<open>extractTextFromImage\<close> on an error of the recognition service.\<close>

definition ocr_failure :: "aws_error \<Rightarrow> error" where
  "ocr_failure err =
     (if aws_code err = ''InvalidParameterException''
      then OCRError ''Invalid image format. Supported formats: PNG, JPEG, PDF. Please ensure the file is a valid image.''
      else if aws_code err = ''AccessDeniedException''
      then OCRError ''AWS Textract access denied. Check your AWS credentials and IAM permissions for Textract.''
      else if aws_code err = ''InvalidS3ObjectException''
      then OCRError ''Invalid S3 object (if using S3). Check the file path and permissions.''
      else if aws_code err = ''ProvisionedThroughputExceededException''
      then OCRError ''AWS Textract throughput limit exceeded. Please try again in a few moments.''
      else if aws_code err = ''ThrottlingException''
      then OCRError ''AWS Textract request was throttled. Please try again later.''
      else OCRError (''OCR extraction failed: '' @ aws_message err))"

text \<open>The text of the line blocks that are not blank, joined by line feeds.\<close>

definition lines_text :: "block list option \<Rightarrow> string" where
  "lines_text blocks =
     (case blocks of
        None \<Rightarrow> []
      | Some bs \<Rightarrow>
          join [CHR 0x0A]
            (map the
               (filter (\<lambda>text. case text of None \<Rightarrow> False
                                | Some s \<Rightarrow> s \<noteq> [] \<and> length (trim s) > 0)
                  (map Text (filter (\<lambda>b. BlockType b = ''LINE'') bs)))))"

definition extractTextFromImage ::
  "'a env_scheme \<Rightarrow> world \<Rightarrow> string \<Rightarrow> (error + string) \<times> world" where
  "extractTextFromImage env w imagePath =
     (if imagePath = []
      then (Inl (OCRError ''Image path is required and must be a string''), w)
      else (case files w imagePath of
              None \<Rightarrow> (Inl (OCRError (''Image file not found: '' @ imagePath)), w)
            | Some size_in_bytes \<Rightarrow>
                (case readFile_failure env of
                   Some msg \<Rightarrow> (Inl (OCRError (''OCR extraction failed: '' @ msg)), w)
                 | None \<Rightarrow>
                     if size_in_bytes > maxSize
                     then (Inl (OCRError
                             (''Image file is too large. Maximum size is 10 MB. Current size: ''
                              @ Number_toFixed2 env (Finite (of_nat size_in_bytes / 1024 / 1024))
                              @ '' MB'')), w)
                     else (let w1 = log_event (TextractRequest imagePath) w
                           in case textract_response env of
                                Inl err \<Rightarrow> (Inl (ocr_failure err), w1)
                              | Inr blocks \<Rightarrow>
                                  (let extractedText = lines_text blocks
                                   in if extractedText = [] \<or> length (trim extractedText) = 0
                                      then (Inl (OCRError
                                              ''No text could be extracted from the image. Please ensure the image contains readable text.''), w1)
                                      else (Inr (trim extractedText), w1))))))"

text \<open>
  \<^verbatim>\<open>extractTextFromBuffer\<close> takes the bytes themselves; the model takes their number.
\<close>

definition ocr_buffer_failure :: "aws_error \<Rightarrow> error" where
  "ocr_buffer_failure err =
     (if aws_code err = ''InvalidParameterException''
      then OCRError ''Invalid image format. Supported formats: PNG, JPEG, PDF.''
      else if aws_code err = ''AccessDeniedException''
      then OCRError ''AWS Textract access denied. Check your AWS credentials and IAM permissions.''
      else OCRError (''OCR extraction from buffer failed: '' @ aws_message err))"

definition extractTextFromBuffer ::
  "'a env_scheme \<Rightarrow> world \<Rightarrow> nat \<Rightarrow> (error + string) \<times> world" where
  "extractTextFromBuffer env w buffer_length =
     (if buffer_length > maxSize
      then (Inl (OCRError
              (''Image buffer is too large. Maximum size is 10 MB. Current size: ''
               @ Number_toFixed2 env (Finite (of_nat buffer_length / 1024 / 1024))
               @ '' MB'')), w)
      else (let w1 = log_event (TextractRequest []) w
            in case textract_response env of
                 Inl err \<Rightarrow> (Inl (ocr_buffer_failure err), w1)
               | Inr blocks \<Rightarrow>
                   (let extractedText = lines_text blocks
                    in if extractedText = [] \<or> length (trim extractedText) = 0
                       then (Inl (OCRError ''No text could be extracted from the image buffer''), w1)
                       else (Inr (trim extractedText), w1))))"

text \<open>
  \<^verbatim>\<open>cleanupImageFile\<close>. The whole body is inside \<^verbatim>\<open>try\<close>, and the \<^verbatim>\<open>catch\<close> block only
  logs: a failure of \<^verbatim>\<open>unlink\<close> leaves the file where it is and the function returns
  normally. The result type still has room for an error, so that "never throws" is a
  statement and not a matter of typing.
\<close>

definition cleanupImageFile ::
  "'a env_scheme \<Rightarrow> world \<Rightarrow> string \<Rightarrow> (error + unit) \<times> world" where
  "cleanupImageFile env w0 filePath =
     (let w = log_event (CleanupImageFileCall filePath) w0
      in if filePath = [] then (Inr (), w)
         else (case files w filePath of
                 Some sz \<Rightarrow>
                   (case (case unlink_failure env of
                            Some msg \<Rightarrow> Inl (ExternalError msg)
                          | None \<Rightarrow> Inr (w\<lparr>files := (files w)(filePath := None)\<rparr>)) of
                      Inr w' \<Rightarrow> (Inr (), w')
                    | Inl error \<Rightarrow> (Inr (), w))
               | None \<Rightarrow> (Inr (), w)))"

section \<open>Transaction Pipeline (\<^verbatim>\<open>services/transactionService.js\<close>)\<close>

record result =
  transaction :: "item option"
  message :: string
  isDuplicate :: bool
  duplicateTransaction :: "item option"

text \<open>The characters that open the two messages, as the bytes they have in the source file.\<close>

definition check_mark :: string where
  "check_mark = [CHR 0xE2, CHR 0x80, CHR 0x9A, CHR 0xC3, CHR 0xBA, CHR 0xC3, CHR 0x96]"

definition warning_sign :: string where
  "warning_sign = [CHR 0xE2, CHR 0x80, CHR 0x9A, CHR 0xC3, CHR 0xB6, CHR 0xE2, CHR 0x80, CHR 0xA0,
                   CHR 0xC3, CHR 0x94, CHR 0xE2, CHR 0x88, CHR 0x8F, CHR 0xC3, CHR 0xA8]"

text \<open>
  \<^verbatim>\<open>generateConfirmationMessage\<close>. \<^verbatim>\<open>transaction.amount.toFixed(2)\<close> is a method of numbers
  only: on any other amount the call throws a \<open>TypeError\<close>.
\<close>

definition generateConfirmationMessage ::
  "'a clock_env_scheme \<Rightarrow> item \<Rightarrow> bool \<Rightarrow> error + string" where
  "generateConfirmationMessage env tx fromReceipt =
     (let sourceText = (if fromReceipt then ''from receipt'' else []);
          typeText = (if type tx = ''income'' then ''income'' else ''expense'')
      in case amount tx of
           JNum n \<Rightarrow>
             Inr (check_mark @ '' Transaction recorded '' @ sourceText @ '': $''
                  @ Number_toFixed2 env n @ '' '' @ typeText @ '' at '' @ merchant tx
                  @ '' ('' @ category tx @ ''). Transaction ID: '' @ transactionId tx)
         | _ \<Rightarrow> Inl (TypeError ''transaction.amount.toFixed is not a function''))"

definition duplicate_message :: "'a clock_env_scheme \<Rightarrow> bool \<Rightarrow> item \<Rightarrow> string" where
  "duplicate_message env fromReceipt d =
     warning_sign @ '' Potential duplicate transaction detected''
       @ (if fromReceipt then '' from receipt'' else []) @ ''. Similar transaction found: $''
       @ ToString env (amount d) @ '' at '' @ merchant d @ '' on '' @ date d
       @ ''. Transaction ID: '' @ transactionId d"

text \<open>\<^verbatim>\<open>transactionData.source = ...; transactionData.rawText = ...\<close>\<close>

definition with_source :: "raw_transaction \<Rightarrow> string \<Rightarrow> js_value \<Rightarrow> raw_transaction" where
  "with_source transactionData src text = transactionData\<lparr>raw_source := JStr src, raw_rawText := text\<rparr>"

definition processTransactionFromText ::
  "'a env_scheme \<Rightarrow> world \<Rightarrow> js_value \<Rightarrow> js_value \<Rightarrow> (error + result) \<times> world" where
  "processTransactionFromText env w uid text =
     (case validateUserId uid of
        Inl e \<Rightarrow> (Inl e, w)
      | Inr validUserId \<Rightarrow>
     (case extractTransactionFromText env w text of
        (Inl e, w1) \<Rightarrow> (Inl e, w1)
      | (Inr transactionData, w1) \<Rightarrow>
     (case validateTransaction env (with_source transactionData ''manual'' text) of
        Inl e \<Rightarrow> (Inl e, w1)
      | Inr validatedData \<Rightarrow>
     (case checkForDuplicates env (table w1) validUserId validatedData of
        Inl e \<Rightarrow> (Inl e, w1)
      | Inr duplicates \<Rightarrow>
          if length duplicates > 0
          then (Inr \<lparr> transaction = None,
                       message = duplicate_message env False (hd duplicates),
                       isDuplicate = True,
                       duplicateTransaction = Some (hd duplicates) \<rparr>, w1)
          else (case createTransaction env w1 validUserId validatedData of
                  (Inl e, w2) \<Rightarrow> (Inl e, w2)
                | (Inr createdTransaction, w2) \<Rightarrow>
                    (case generateConfirmationMessage env createdTransaction False of
                       Inl e \<Rightarrow> (Inl e, w2)
                     | Inr confirmationMessage \<Rightarrow>
                         (Inr \<lparr> transaction = Some createdTransaction,
                                 message = confirmationMessage,
                                 isDuplicate = False,
                                 duplicateTransaction = None \<rparr>, w2)))))))"

text \<open>
  \<^verbatim>\<open>processTransactionFromImage\<close>. The body of the \<^verbatim>\<open>try\<close> block returns, besides the
  outcome and the state, the value of the local flag \<^verbatim>\<open>cleanedUp\<close> at the moment it is
  left; the \<^verbatim>\<open>catch\<close> block reads the flag.
\<close>

definition processTransactionFromImage_try ::
  "'a env_scheme \<Rightarrow> world \<Rightarrow> js_value \<Rightarrow> string \<Rightarrow> (error + result) \<times> world \<times> bool" where
  "processTransactionFromImage_try env w uid imagePath =
     (case validateUserId uid of
        Inl e \<Rightarrow> (Inl e, w, False)
      | Inr validUserId \<Rightarrow>
     (case extractTextFromImage env w imagePath of
        (Inl e, w0) \<Rightarrow> (Inl e, w0, False)
      | (Inr extractedText, w0) \<Rightarrow>
     (case extractTransactionFromText env w0 (JStr extractedText) of
        (Inl e, w1) \<Rightarrow> (Inl e, w1, False)
      | (Inr transactionData, w1) \<Rightarrow>
     (case validateTransaction env (with_source transactionData ''ocr'' (JStr extractedText)) of
        Inl e \<Rightarrow> (Inl e, w1, False)
      | Inr validatedData \<Rightarrow>
     (case checkForDuplicates env (table w1) validUserId validatedData of
        Inl e \<Rightarrow> (Inl e, w1, False)
      | Inr duplicates \<Rightarrow>
          if length duplicates > 0
          then (case cleanupImageFile env w1 imagePath of
                  (Inl e, w2) \<Rightarrow> (Inl e, w2, False)
                | (Inr u, w2) \<Rightarrow>
                    (Inr \<lparr> transaction = None,
                            message = duplicate_message env True (hd duplicates),
                            isDuplicate = True,
                            duplicateTransaction = Some (hd duplicates) \<rparr>, w2, True))
          else (case createTransaction env w1 validUserId validatedData of
                  (Inl e, w2) \<Rightarrow> (Inl e, w2, False)
                | (Inr createdTransaction, w2) \<Rightarrow>
                    (case cleanupImageFile env w2 imagePath of
                       (Inl e, w3) \<Rightarrow> (Inl e, w3, False)
                     | (Inr u, w3) \<Rightarrow>
                         (case generateConfirmationMessage env createdTransaction True of
                            Inl e \<Rightarrow> (Inl e, w3, True)
                          | Inr confirmationMessage \<Rightarrow>
                              (Inr \<lparr> transaction = Some createdTransaction,
                                      message = confirmationMessage,
                                      isDuplicate = False,
                                      duplicateTransaction = None \<rparr>, w3, True)))))))))"

definition processTransactionFromImage ::
  "'a env_scheme \<Rightarrow> world \<Rightarrow> js_value \<Rightarrow> string \<Rightarrow> (error + result) \<times> world" where
  "processTransactionFromImage env w uid imagePath =
     (case processTransactionFromImage_try env w uid imagePath of
        (Inr r, w', cleanedUp) \<Rightarrow> (Inr r, w')
      | (Inl error, w', cleanedUp) \<Rightarrow>
          if \<not> cleanedUp
          then (case cleanupImageFile env w' imagePath of
                  (Inl e, w'') \<Rightarrow> (Inl e, w'')
                | (Inr u, w'') \<Rightarrow> (Inl error, w''))
          else (Inl error, w'))"

definition processTransactionFromBuffer ::
  "'a env_scheme \<Rightarrow> world \<Rightarrow> js_value \<Rightarrow> nat \<Rightarrow> (error + result) \<times> world" where
  "processTransactionFromBuffer env w uid buffer_length =
     (case validateUserId uid of
        Inl e \<Rightarrow> (Inl e, w)
      | Inr validUserId \<Rightarrow>
     (case extractTextFromBuffer env w buffer_length of
        (Inl e, w0) \<Rightarrow> (Inl e, w0)
      | (Inr extractedText, w0) \<Rightarrow>
     (case extractTransactionFromText env w0 (JStr extractedText) of
        (Inl e, w1) \<Rightarrow> (Inl e, w1)
      | (Inr transactionData, w1) \<Rightarrow>
     (case validateTransaction env (with_source transactionData ''ocr'' (JStr extractedText)) of
        Inl e \<Rightarrow> (Inl e, w1)
      | Inr validatedData \<Rightarrow>
     (case checkForDuplicates env (table w1) validUserId validatedData of
        Inl e \<Rightarrow> (Inl e, w1)
      | Inr duplicates \<Rightarrow>
          if length duplicates > 0
          then (Inr \<lparr> transaction = None,
                       message = duplicate_message env True (hd duplicates),
                       isDuplicate = True,
                       duplicateTransaction = Some (hd duplicates) \<rparr>, w1)
          else (case createTransaction env w1 validUserId validatedData of
                  (Inl e, w2) \<Rightarrow> (Inl e, w2)
                | (Inr createdTransaction, w2) \<Rightarrow>
                    (case generateConfirmationMessage env createdTransaction True of
                       Inl e \<Rightarrow> (Inl e, w2)
                     | Inr confirmationMessage \<Rightarrow>
                         (Inr \<lparr> transaction = Some createdTransaction,
                                 message = confirmationMessage,
                                 isDuplicate = False,
                                 duplicateTransaction = None \<rparr>, w2))))))))"

text \<open>
  What a request of the user \<open>uid\<close> may have done to the table, from the state \<open>w\<close>
  before it to the state \<open>w'\<close> after it, when \<open>cand\<close> tells which candidate the request
  has extracted. Either nothing, without a call of \<^verbatim>\<open>createTransaction\<close>. Or one call of
  \<^verbatim>\<open>createTransaction\<close>, on the data \<open>v\<close> that \<^verbatim>\<open>validateTransaction\<close> returned for that
  candidate, after which the table holds the new item of the user (or is unchanged,
  when the put failed), and each field of the item is what the validator of that field
  returned.
\<close>

abbreviation validated_write ::
  "'a env_scheme \<Rightarrow> world \<Rightarrow> world \<Rightarrow> js_value \<Rightarrow> (raw_transaction \<Rightarrow> bool) \<Rightarrow> bool" where
  "validated_write env w w' uid cand \<equiv>
     (table w' = table w \<and> create_calls w' = create_calls w)
     \<or> (\<exists>c v u. cand c \<and> validateUserId uid = Inr u
           \<and> validateTransaction env c = Inr v
           \<and> create_calls w' = create_calls w + 1
           \<and> (table w' = table w \<or> table w' = dynamo_put (table w) (new_item env u v))
           \<and> userId (new_item env u v) = u
           \<and> validateAmount (raw_amount c) = Inr (amount (new_item env u v))
           \<and> validateDate env (raw_date c) = Inr (date (new_item env u v))
           \<and> validateTransactionType (raw_type c) = Inr (type (new_item env u v))
           \<and> validateMerchant (raw_merchant c) = Inr (merchant (new_item env u v))
           \<and> validateCategory (raw_category c) = Inr (category (new_item env u v))
           \<and> validateCurrency (js_or (raw_currency c) (JStr ''USD''))
                = Inr (currency (new_item env u v))
           \<and> description (new_item env u v) = description v
           \<and> source (new_item env u v) = source v
           \<and> rawText (new_item env u v) = rawText v)"

text \<open>The candidate of a request: what the extractor returned, with the source tag and
  the raw text that the entry point adds.\<close>

definition candidate_of_text :: "'a env_scheme \<Rightarrow> world \<Rightarrow> js_value \<Rightarrow> raw_transaction \<Rightarrow> bool" where
  "candidate_of_text env w text c =
     (case extractTransactionFromText env w text of
        (Inr td, w1) \<Rightarrow> c = with_source td ''manual'' text
      | (Inl e, w1) \<Rightarrow> False)"

definition candidate_of_image :: "'a env_scheme \<Rightarrow> world \<Rightarrow> string \<Rightarrow> raw_transaction \<Rightarrow> bool" where
  "candidate_of_image env w imagePath c =
     (case extractTextFromImage env w imagePath of
        (Inr extractedText, w0) \<Rightarrow>
          (case extractTransactionFromText env w0 (JStr extractedText) of
             (Inr td, w1) \<Rightarrow> c = with_source td ''ocr'' (JStr extractedText)
           | (Inl e, w1) \<Rightarrow> False)
      | (Inl e, w0) \<Rightarrow> False)"

definition candidate_of_buffer :: "'a env_scheme \<Rightarrow> world \<Rightarrow> nat \<Rightarrow> raw_transaction \<Rightarrow> bool" where
  "candidate_of_buffer env w buffer_length c =
     (case extractTextFromBuffer env w buffer_length of
        (Inr extractedText, w0) \<Rightarrow>
          (case extractTransactionFromText env w0 (JStr extractedText) of
             (Inr td, w1) \<Rightarrow> c = with_source td ''ocr'' (JStr extractedText)
           | (Inl e, w1) \<Rightarrow> False)
      | (Inl e, w0) \<Rightarrow> False)"

section \<open>Concrete requests\<close>

text \<open>
  Data for the worked examples below. The clock stands at 2023-06-01T00:00:00Z and the
  process runs in UTC. The user has sent \<^verbatim>\<open>Spent $12.50 at Starbucks yesterday\<close>.
\<close>

definition dq :: string where
  "dq = [CHR 0x22]"

text \<open>The JSON text of a complete answer, and of one that lacks \<^verbatim>\<open>merchant\<close> and \<^verbatim>\<open>type\<close>.\<close>

definition ex_response_full :: string where
  "ex_response_full =
     ''{'' @ dq @ ''amount'' @ dq @ '': 12.5, '' @ dq @ ''date'' @ dq @ '': '' @ dq @ ''2023-05-31'' @ dq
       @ '', '' @ dq @ ''merchant'' @ dq @ '': '' @ dq @ ''Starbucks'' @ dq
       @ '', '' @ dq @ ''category'' @ dq @ '': '' @ dq @ ''Food'' @ dq
       @ '', '' @ dq @ ''type'' @ dq @ '': '' @ dq @ ''expense'' @ dq
       @ '', '' @ dq @ ''currency'' @ dq @ '': '' @ dq @ ''USD'' @ dq
       @ '', '' @ dq @ ''description'' @ dq @ '': '' @ dq @ ''Coffee'' @ dq @ ''}''"

definition ex_response_missing :: string where
  "ex_response_missing =
     ''{'' @ dq @ ''amount'' @ dq @ '': 12.5, '' @ dq @ ''date'' @ dq @ '': '' @ dq @ ''2023-05-31'' @ dq
       @ '', '' @ dq @ ''category'' @ dq @ '': '' @ dq @ ''Food'' @ dq @ ''}''"

text \<open>The complete answer inside a fenced code block.\<close>

definition ex_response_fenced :: string where
  "ex_response_fenced =
     [CHR 0x60, CHR 0x60, CHR 0x60] @ ''json'' @ [CHR 0x0A] @ ex_response_full @ [CHR 0x0A]
       @ [CHR 0x60, CHR 0x60, CHR 0x60]"

text \<open>The objects that the two JSON texts denote.\<close>

definition ex_candidate :: raw_transaction where
  "ex_candidate =
     \<lparr> raw_amount = JNum (Finite (25 / 2)), raw_date = JStr ''2023-05-31'',
       raw_merchant = JStr ''Starbucks'', raw_category = JStr ''Food'',
       raw_type = JStr ''expense'', raw_currency = JStr ''USD'',
       raw_description = JStr ''Coffee'', raw_source = JUndefined,
       raw_rawText = JUndefined \<rparr>"

definition ex_candidate_missing :: raw_transaction where
  "ex_candidate_missing =
     \<lparr> raw_amount = JNum (Finite (25 / 2)), raw_date = JStr ''2023-05-31'',
       raw_merchant = JUndefined, raw_category = JStr ''Food'',
       raw_type = JUndefined, raw_currency = JUndefined,
       raw_description = JUndefined, raw_source = JUndefined,
       raw_rawText = JUndefined \<rparr>"

definition ex_parse :: "string \<Rightarrow> parsed option" where
  "ex_parse s = (if s = ex_response_full then Some (ParsedObject ex_candidate)
                 else if s = ex_response_missing then Some (ParsedObject ex_candidate_missing)
                 else None)"

definition ex_message :: string where
  "ex_message = ''Spent $12.50 at Starbucks yesterday''"

definition ex_env :: env where
  "ex_env =
     \<lparr> clock_validate = 1685577600000, clock_today = 1685577600000,
       clock_put_timestamp = 1685577600000, clock_put_now = 1685577600000,
       LocalTZA_utc = (\<lambda>t. 0), LocalTZA_local = (\<lambda>t. 0),
       Date_parse_other = (\<lambda>s. None),
       Number_toString = (\<lambda>n. ''12.5''), Number_toFixed2 = (\<lambda>n. ''12.50''),
       uuidv4 = ''9b2d7c1e-5f4a-4c3b-8a6d-0e1f2a3b4c5d'',
       put_failure = None, query_partition_failure = None, query_index_failure = None,
       scan_failure = None,
       limit_rejected = AwsError ''ValidationException'' ''Limit must be at least 1'',
       openai_key_configured = True,
       openai_completion = (\<lambda>request. Inr (Some ex_response_full)),
       JSON_parse_accepting = ex_parse,
       JSON_SyntaxError_message = (\<lambda>s. ''Unexpected token''),
       JSON_stringify = (\<lambda>p. ''{}''),
       readFile_failure = None, unlink_failure = None,
       textract_response =
         Inr (Some [\<lparr> BlockType = ''PAGE'', Text = None \<rparr>,
                    \<lparr> BlockType = ''LINE'', Text = Some ''Starbucks'' \<rparr>,
                    \<lparr> BlockType = ''LINE'', Text = Some ''Total 12.50'' \<rparr>]) \<rparr>"

text \<open>The same environment with the two other answers of the language model.\<close>

definition ex_env_missing :: env where
  "ex_env_missing = ex_env\<lparr> openai_completion := (\<lambda>request. Inr (Some ex_response_missing)) \<rparr>"

definition ex_env_fenced :: env where
  "ex_env_fenced = ex_env\<lparr> openai_completion := (\<lambda>request. Inr (Some ex_response_fenced)) \<rparr>"

text \<open>The environment in which the language model answers with the JSON text \<^verbatim>\<open>null\<close>.\<close>

definition ex_env_null :: env where
  "ex_env_null =
     ex_env\<lparr> openai_completion := (\<lambda>request. Inr (Some ''null'')),
             JSON_parse_accepting := (\<lambda>s. if s = ''null'' then Some ParsedNull else None) \<rparr>"

text \<open>A record of the same user, merchant and day, 4.8 percent dearer: its amount is
  the float that \<^verbatim>\<open>13.10\<close> denotes.\<close>

definition ex_stored :: item where
  "ex_stored =
     \<lparr> amount = JNum (round_double (131 / 10)), date = ''2023-05-31'', type = ''expense'',
       merchant = ''Starbucks'', category = ''Food'', currency = ''USD'',
       description = [], source = JStr ''manual'', rawText = JStr ''coffee 13.10 starbucks'',
       userId = ''user-1'', transactionId = ''tx-1f0e'', timestamp = 1685500000000,
       status = ''confirmed'', createdAt = ''2023-05-31T02:26:40.000Z'',
       updatedAt = ''2023-05-31T02:26:40.000Z'' \<rparr>"

text \<open>A record of another user, and a second record of the user with a later time stamp.\<close>

definition ex_other :: item where
  "ex_other = ex_stored\<lparr> userId := ''user-2'', transactionId := ''tx-77aa'' \<rparr>"

definition ex_newer :: item where
  "ex_newer = ex_stored\<lparr> merchant := ''Bakery'', transactionId := ''tx-0a1b'',
                         timestamp := 1685570000000 \<rparr>"

text \<open>
  One hundred records of the other user, with the keys \<^verbatim>\<open>tx-f000\<close> to \<^verbatim>\<open>tx-f099\<close>, and the
  environment in which the table has no index \<^verbatim>\<open>merchant-date-index\<close>.
\<close>

definition ex_filler :: "nat \<Rightarrow> item" where
  "ex_filler k = ex_stored\<lparr> userId := ''user-2'', transactionId := ''tx-f'' @ pad3 k \<rparr>"

definition ex_fillers :: "item list" where
  "ex_fillers = map ex_filler [0..<100]"

definition ex_env_no_index :: env where
  "ex_env_no_index =
     ex_env\<lparr> query_index_failure :=
               Some (AwsError ''ValidationException''
                       ''The table does not have the specified index: merchant-date-index'') \<rparr>"

text \<open>The candidate of the example after validation.\<close>

definition ex_validated :: "js_value \<Rightarrow> js_value \<Rightarrow> transaction_data" where
  "ex_validated src raw =
     \<lparr> amount = JNum (Finite (25 / 2)), date = ''2023-05-31'', type = ''expense'',
       merchant = ''Starbucks'', category = ''Food'', currency = ''USD'',
       description = ''Coffee'', source = src, rawText = raw \<rparr>"

text \<open>What the recognition service reads on the receipt.\<close>

definition ex_ocr_text :: string where
  "ex_ocr_text = ''Starbucks'' @ [CHR 0x0A] @ ''Total 12.50''"

text \<open>The environment in which the uploaded file cannot be deleted.\<close>

definition ex_env_unlink_fails :: env where
  "ex_env_unlink_fails = ex_env\<lparr> unlink_failure := Some ''EPERM: operation not permitted'' \<rparr>"

definition ex_path :: string where
  "ex_path = ''uploads/receipt-1.png''"

definition ex_files :: "string \<Rightarrow> nat option" where
  "ex_files p = (if p = ex_path then Some 204800 else None)"

text \<open>A file system in which the upload has 11 000 000 bytes.\<close>

definition ex_files_big :: "string \<Rightarrow> nat option" where
  "ex_files_big p = (if p = ex_path then Some 11000000 else None)"

definition ex_world :: "item list \<Rightarrow> world" where
  "ex_world tbl = \<lparr> table = tbl, files = ex_files, trace = [] \<rparr>"

section \<open>Properties of the number model\<close>

subsection \<open>Rounding\<close>

text \<open>\<open>ilog2\<close> is the exponent of the leading bit.\<close>

lemma ilog2_bounds:
  assumes "0 < r"
  shows "2 powi (ilog2 r) \<le> r \<and> r < 2 powi (ilog2 r + 1)"
proof (cases "1 \<le> r")
  case True
  let ?n = "\<lfloor>r\<rfloor>"
  have n: "0 < ?n" using True by simp
  from bitlen_bounds [OF n] have lo: "2 ^ nat (bitlen ?n - 1) \<le> ?n" and hi: "?n < 2 ^ nat (bitlen ?n)"
    by auto
  have b: "1 \<le> bitlen ?n" using n bitlen_eq_zero_iff [of ?n] bitlen_nonneg [of ?n] by linarith
  have i: "ilog2 r = bitlen ?n - 1" using True by (simp add: ilog2_def)
  have "(2::rat) powi (bitlen ?n - 1) = 2 ^ nat (bitlen ?n - 1)"
    using b by (simp add: power_int_def)
  also have "\<dots> = of_int (2 ^ nat (bitlen ?n - 1))" by simp
  also have "\<dots> \<le> of_int ?n" using lo by (simp only: of_int_le_iff)
  also have "\<dots> \<le> r" by simp
  finally have a: "2 powi (ilog2 r) \<le> r" by (simp add: i)
  have "?n + 1 \<le> 2 ^ nat (bitlen ?n)" using hi by simp
  then have "(of_int (?n + 1) :: rat) \<le> of_int (2 ^ nat (bitlen ?n))" by (simp only: of_int_le_iff)
  then have "(of_int ?n + 1 :: rat) \<le> 2 ^ nat (bitlen ?n)" by simp
  moreover have "r < of_int ?n + 1" by linarith
  ultimately have "r < 2 ^ nat (bitlen ?n)" by linarith
  also have "\<dots> = 2 powi (bitlen ?n)" using b by (simp add: power_int_def)
  finally have "r < 2 powi (ilog2 r + 1)" by (simp add: i)
  with a show ?thesis by simp
next
  case False
  let ?s = "1 / r"
  let ?n = "\<lceil>?s\<rceil> - 1"
  have s: "1 < ?s" using False assms by simp
  have n: "0 < ?n" using s by linarith
  from bitlen_bounds [OF n] have lo: "2 ^ nat (bitlen ?n - 1) \<le> ?n" and hi: "?n < 2 ^ nat (bitlen ?n)"
    by auto
  have b: "1 \<le> bitlen ?n" using n bitlen_eq_zero_iff [of ?n] bitlen_nonneg [of ?n] by linarith
  have i: "ilog2 r = - bitlen ?n" using False by (simp add: ilog2_def)
  have ns: "of_int ?n < ?s" "?s \<le> of_int ?n + 1" by linarith+
  have "?n + 1 \<le> 2 ^ nat (bitlen ?n)" using hi by simp
  then have "(of_int (?n + 1) :: rat) \<le> of_int (2 ^ nat (bitlen ?n))" by (simp only: of_int_le_iff)
  then have "(of_int ?n + 1 :: rat) \<le> 2 ^ nat (bitlen ?n)" by simp
  with ns have "?s \<le> 2 ^ nat (bitlen ?n)" by linarith
  then have "1 / 2 ^ nat (bitlen ?n) \<le> r"
    using assms by (simp add: field_simps)
  moreover have "(2::rat) powi (- bitlen ?n) = 1 / 2 ^ nat (bitlen ?n)"
    using b by (simp add: power_int_def field_simps)
  ultimately have a: "2 powi (ilog2 r) \<le> r" by (simp add: i)
  have "(of_int (2 ^ nat (bitlen ?n - 1)) :: rat) \<le> of_int ?n" using lo by (simp only: of_int_le_iff)
  then have "(2 ^ nat (bitlen ?n - 1) :: rat) \<le> of_int ?n" by simp
  with ns have "2 ^ nat (bitlen ?n - 1) < ?s" by linarith
  then have c: "r < 1 / 2 ^ nat (bitlen ?n - 1)"
    using assms by (simp add: field_simps)
  have "(2::rat) powi (- bitlen ?n + 1) = 1 / 2 ^ nat (bitlen ?n - 1)"
    using b by (cases "bitlen ?n = 1") (simp_all add: power_int_def field_simps)
  with c have "r < 2 powi (ilog2 r + 1)" by (simp add: i)
  with a show ?thesis by simp
qed

lemma ilog2_eqI:
  assumes "2 powi k \<le> r" "r < 2 powi (k + 1)"
  shows "ilog2 r = k"
proof -
  have "0 < (2::rat) powi k" by simp
  with assms have r: "0 < r" by linarith
  from ilog2_bounds [OF r] have lo: "2 powi (ilog2 r) \<le> r" and hi: "r < 2 powi (ilog2 r + 1)"
    by auto
  have "(2::rat) powi k < 2 powi (ilog2 r + 1)" using assms(1) hi by linarith
  then have a: "k < ilog2 r + 1"
    by (metis power_int_increasing linorder_not_less one_le_numeral)
  have "(2::rat) powi (ilog2 r) < 2 powi (k + 1)" using assms(2) lo by linarith
  then have b: "ilog2 r < k + 1"
    by (metis power_int_increasing linorder_not_less one_le_numeral)
  from a b show ?thesis by linarith
qed

lemma round_half_even_eqI:
  assumes "\<bar>x - of_int m\<bar> < 1 / 2"
  shows "round_half_even x = m"
proof -
  have "of_int m - 1 < x" "x < of_int m + 1" using assms by linarith+
  then have "m - 1 \<le> \<lfloor>x\<rfloor>" "\<lfloor>x\<rfloor> \<le> m" by linarith+
  then have "\<lfloor>x\<rfloor> = m \<or> \<lfloor>x\<rfloor> = m - 1" by linarith
  then show ?thesis
  proof
    assume f: "\<lfloor>x\<rfloor> = m"
    then have "0 \<le> x - of_int m" by linarith
    with assms have "x - of_int m < 1 / 2" by linarith
    then show ?thesis by (simp add: round_half_even_def f)
  next
    assume f: "\<lfloor>x\<rfloor> = m - 1"
    then have "x < of_int m" by linarith
    with assms have "1 / 2 < x - of_int (m - 1)" by simp
    then show ?thesis by (simp add: round_half_even_def f)
  qed
qed

text \<open>
  How a value of \<open>round_double\<close> is checked: give the exponent \<open>e\<close> of the last bit and the
  significand \<open>m\<close>, the integer nearest to \<open>r / 2\<^sup>e\<close>.
\<close>

lemma round_double_eqI:
  assumes "2 powi (e + 52) \<le> \<bar>r\<bar>" "\<bar>r\<bar> < 2 powi (e + 53)" "- 1074 \<le> e"
    and "\<bar>r / 2 powi e - of_int m\<bar> < 1 / 2"
    and "v = of_int m * 2 powi e" "\<bar>v\<bar> < 2 ^ 1024"
  shows "round_double r = Finite v"
proof -
  have "0 < (2::rat) powi (e + 52)" by simp
  with assms(1) have r: "r \<noteq> 0" by linarith
  have "ilog2 \<bar>r\<bar> = e + 52"
    using assms(1,2) by (intro ilog2_eqI) (simp_all add: add.commute add.left_commute)
  then have e: "max (ilog2 \<bar>r\<bar> - 52) (- 1074) = e" using assms(3) by simp
  show ?thesis
    using r assms(5,6) round_half_even_eqI [OF assms(4)]
    by (simp add: round_double_def e Let_def)
qed


lemma round_double_not_NaN: "round_double r \<noteq> NaN"
  by (simp add: round_double_def Let_def)

text \<open>Worked values.\<close>

lemma round_double_12_50: "round_double (25 / 2) = Finite (25 / 2)"
  by (rule round_double_eqI [where e = "- 49" and m = 7036874417766400]) simp_all

lemma round_double_13_10:
  "round_double (131 / 10) = Finite (7374644389819187 / 562949953421312)"
  by (rule round_double_eqI [where e = "- 49" and m = 7374644389819187]) simp_all

lemma tolerance_value: "tolerance = Finite (3602879701896397 / 72057594037927936)"
  unfolding tolerance_def
  by (rule round_double_eqI [where e = "- 57" and m = 7205759403792794]) simp_all

subsection \<open>Reading a decimal literal\<close>

text \<open>\<^verbatim>\<open>parseFloat\<close> on a decimal literal with a fraction, after white space and before
  text that does not continue it.\<close>

lemma is_digit_not_space: "is_digit c \<Longrightarrow> \<not> is_space c"
  by (auto simp: is_digit_def is_space_def Let_def)

lemma parse_exponent_none:
  "rest = [] \<or> (hd rest \<noteq> CHR ''e'' \<and> hd rest \<noteq> CHR ''E'') \<Longrightarrow> parse_exponent rest = (0, rest)"
  by (cases rest) (auto simp: parse_exponent_def)

lemma takeWhile_digits:
  assumes "list_all is_digit ds" "rest = [] \<or> \<not> is_digit (hd rest)"
  shows "takeWhile is_digit (ds @ rest) = ds" "dropWhile is_digit (ds @ rest) = rest"
  using assms by (cases rest; simp add: list_all_iff)+

lemma parse_unsigned_decimal_fraction:
  assumes ip: "ip \<noteq> []" "list_all is_digit ip" and fp: "list_all is_digit fp"
    and rest: "rest = [] \<or> (\<not> is_digit (hd rest) \<and> hd rest \<noteq> CHR ''e'' \<and> hd rest \<noteq> CHR ''E'')"
  shows "parse_unsigned_decimal (ip @ ''.'' @ fp @ rest)
           = Some (of_nat (digits_value ip) + of_nat (digits_value fp) / 10 ^ length fp, rest)"
proof -
  have nd: "\<not> is_digit CHR ''.''" by (simp add: is_digit_def)
  have a: "takeWhile is_digit (ip @ ''.'' @ fp @ rest) = ip"
    "dropWhile is_digit (ip @ ''.'' @ fp @ rest) = ''.'' @ fp @ rest"
    using takeWhile_digits [OF ip(2), of "''.'' @ fp @ rest"] nd by simp_all
  have b: "takeWhile is_digit (fp @ rest) = fp" "dropWhile is_digit (fp @ rest) = rest"
    using takeWhile_digits [OF fp, of rest] rest by auto
  have c: "parse_exponent rest = (0, rest)"
    using rest by (intro parse_exponent_none) auto
  show ?thesis
    unfolding parse_unsigned_decimal_def a Let_def
    using ip(1) by (simp add: b c pow10_def)
qed

lemma parseFloat_decimal:
  assumes ws: "list_all is_space ws"
    and ip: "ip \<noteq> []" "list_all is_digit ip" and fp: "list_all is_digit fp"
    and rest: "rest = [] \<or> (\<not> is_digit (hd rest) \<and> hd rest \<noteq> CHR ''e'' \<and> hd rest \<noteq> CHR ''E'')"
  shows "parseFloat (ws @ ip @ ''.'' @ fp @ rest)
           = round_double (of_nat (digits_value ip) + of_nat (digits_value fp) / 10 ^ length fp)"
proof -
  obtain c cs where c: "ip = c # cs" using ip(1) by (cases ip) auto
  have d: "is_digit c" using ip(2) c by simp
  have t: "trimStart (ws @ ip @ ''.'' @ fp @ rest) = ip @ ''.'' @ fp @ rest"
    using ws is_digit_not_space [OF d]
    by (simp add: trimStart_def c list_all_iff)
  have s: "c \<noteq> CHR ''-''" "c \<noteq> CHR ''+''" "c \<noteq> CHR ''I''"
    using d by (auto simp: is_digit_def)
  have p: "\<not> prefix ''Infinity'' (c # cs @ ''.'' @ fp @ rest)"
    using s(3) by simp
  show ?thesis
    unfolding parseFloat_def t
    using parse_unsigned_decimal_fraction [OF ip fp rest] s p
    by (simp add: parse_signed_decimal_def c Let_def)
qed

section \<open>Properties of the Field Validator\<close>

subsection \<open>Amounts\<close>


lemma validateAmount_JNum:
  "validateAmount (JNum n) =
     (if n = NaN then Inl (ValidationError ''Amount must be a valid number'' (Some ''amount''))
      else if num_le n (Finite 0)
      then Inl (ValidationError ''Amount must be greater than 0'' (Some ''amount''))
      else if num_gt n (Finite 1000000000)
      then Inl (ValidationError ''Amount is too large (max: 1,000,000,000)'' (Some ''amount''))
      else Inr (JNum n))"
  by (simp add: validateAmount_def isNaN_def)







text \<open>Worked values.\<close>

lemma digits_value_ex:
  "digits_value ''12'' = 12" "digits_value ''50'' = 50" "digits_value ''5'' = 5"
  by (simp_all add: digits_value_def digit_val_def)

lemma parseFloat_12_50: "parseFloat ''12.50'' = Finite (25 / 2)"
  using parseFloat_decimal [of "[]" "''12''" "''50''" "[]"]
  by (simp add: digits_value_ex round_double_12_50 is_digit_def)












subsection \<open>Dates\<close>

lemma is_digit_digit_char: "is_digit (digit_char n)"
  unfolding is_digit_def digit_char_def Let_def of_char_of by (simp add: mod_mod_cancel)

lemma is_digit_not_T: "is_digit c \<Longrightarrow> c \<noteq> CHR ''T''"
  by (auto simp: is_digit_def)

lemma digit_char_not_T: "digit_char n \<noteq> CHR ''T''" "CHR ''T'' \<noteq> digit_char n"
  using is_digit_not_T [OF is_digit_digit_char [of n]] by auto

lemma split_T_head_append: "CHR ''T'' \<notin> set xs \<Longrightarrow> split_T_head (xs @ CHR ''T'' # ys) = xs"
  unfolding split_T_head_def by (induction xs) auto

lemma iso_year_no_T: "CHR ''T'' \<notin> set (iso_year y)"
  by (simp add: iso_year_def pad4_def pad6_def digit_char_not_T)

lemma iso_date_no_T: "CHR ''T'' \<notin> set (iso_date t)"
  by (simp add: iso_date_def pad2_def digit_char_not_T iso_year_no_T)

text \<open>The date part of the ISO string is what \<^verbatim>\<open>split('T')[0]\<close> returns.\<close>

lemma split_toISOString: "split_T_head (toISOString t) = iso_date t"
  unfolding toISOString_def using split_T_head_append [OF iso_date_no_T] by simp

lemma iso_date_shape_iso_date:
  "0 \<le> YearFromTime t \<Longrightarrow> YearFromTime t \<le> 9999 \<Longrightarrow> iso_date_shape (iso_date t)"
  by (simp add: iso_date_shape_def iso_date_def iso_year_def pad4_def pad2_def is_digit_digit_char)

lemma validateDate_dateonly:
  "parse_iso_date s = Some t \<Longrightarrow> s \<noteq> [] \<Longrightarrow>
   validateDate env (JStr s) =
     (if date_gt (Some t) (oneYearFromNow env)
      then Inl (ValidationError ''Date cannot be more than 1 year in the future'' (Some ''date''))
      else Inr (iso_date t))"
  by (simp add: validateDate_def Date_parse_def split_toISOString)

lemma validateDate_field: "validateDate env d = Inl e \<Longrightarrow> is_ValidationError e \<and> error_field e = Some ''date''"
  by (auto simp: validateDate_def Let_def split: if_splits option.splits)

text \<open>Worked values of the calendar.\<close>

lemma civil_19508: "civil_from_days 19508 = (2023, 5, 31)"
  by (simp add: civil_from_days_def Let_def cong: let_weak_cong)

lemma civil_19509: "civil_from_days 19509 = (2023, 6, 1)"
  by (simp add: civil_from_days_def Let_def cong: let_weak_cong)

lemma civil_19875: "civil_from_days 19875 = (2024, 6, 1)"
  by (simp add: civil_from_days_def Let_def cong: let_weak_cong)

lemma civil_known_values:
  "civil_from_days 0 = (1970, 1, 1)"
  "civil_from_days (- 1) = (1969, 12, 31)"
  "civil_from_days 11016 = (2000, 2, 29)"
  "civil_from_days 19782 = (2024, 2, 29)"
  "civil_from_days (- 719528) = (0, 1, 1)"
  "civil_from_days (- 719529) = (- 1, 12, 31)"
  by (simp_all add: civil_from_days_def Let_def cong: let_weak_cong)

lemma days_known_values:
  "days_from_civil 1970 1 1 = 0"
  "days_from_civil 2000 2 29 = 11016"
  "days_from_civil 2024 2 29 = 19782"
  "days_from_civil 2023 5 31 = 19508"
  by (simp_all add: days_from_civil_def Let_def cong: let_weak_cong)

text \<open>Outside the years 0 to 9999 \<^verbatim>\<open>toISOString\<close> prints a sign and six digits of year, so
  the part before the \<^verbatim>\<open>T\<close> is not of the form \<^verbatim>\<open>YYYY-MM-DD\<close>.\<close>

lemma iso_date_before_year_0: "iso_date (- 62167305600000) = ''-000001-12-31''"
  by (simp add: iso_date_def iso_year_def YearFromTime_def MonthFromTime_def DateFromTime_def
        Day_def msPerDay_def civil_from_days_def Let_def pad2_def pad6_def digit_char_def
        char_of_eq_iff cong: let_weak_cong)

lemma iso_date_shape_before_year_0: "\<not> iso_date_shape (iso_date (- 62167305600000))"
  by (simp add: iso_date_before_year_0 iso_date_shape_def is_digit_def)

lemma parse_2023_05_31: "parse_iso_date ''2023-05-31'' = Some 1685491200000"
  by (simp add: parse_iso_date_def is_digit_def digits_value_def digit_val_def daysInMonth_def
        isLeapYear_def days_from_civil_def msPerDay_def Let_def cong: let_weak_cong)

lemma parse_2024_06_01: "parse_iso_date ''2024-06-01'' = Some 1717200000000"
  by (simp add: parse_iso_date_def is_digit_def digits_value_def digit_val_def daysInMonth_def
        isLeapYear_def days_from_civil_def msPerDay_def Let_def cong: let_weak_cong)

lemma iso_date_2023_05_31: "iso_date 1685491200000 = ''2023-05-31''"
  by (simp add: iso_date_def iso_year_def YearFromTime_def MonthFromTime_def DateFromTime_def
        Day_def msPerDay_def civil_19508 pad2_def pad4_def digit_char_def char_of_eq_iff)

lemma iso_date_2024_06_01: "iso_date 1717200000000 = ''2024-06-01''"
  by (simp add: iso_date_def iso_year_def YearFromTime_def MonthFromTime_def DateFromTime_def
        Day_def msPerDay_def civil_19875 pad2_def pad4_def digit_char_def char_of_eq_iff)

lemma YearFromTime_2023_05_31: "YearFromTime 1685491200000 = 2023"
  by (simp add: YearFromTime_def Day_def msPerDay_def civil_19508)

text \<open>One year after 2023-06-01T00:00:00Z is 2024-06-01T00:00:00Z, 366 days later.\<close>

lemma oneYearFromNow_ex_env: "oneYearFromNow ex_env = Some 1717200000000"
  by (simp add: oneYearFromNow_def setFullYear_def getFullYear_def LocalTime_def UTC_def
        ex_env_def YearFromTime_def MonthFromTime_def DateFromTime_def TimeWithinDay_def
        Day_def msPerDay_def civil_19509 MakeDate_def MakeDay_def days_from_civil_def
        TimeClip_def Let_def cong: let_weak_cong)

lemma validateDate_2023_05_31: "validateDate ex_env (JStr ''2023-05-31'') = Inr ''2023-05-31''"
  using validateDate_dateonly [OF parse_2023_05_31, of ex_env]
  by (simp add: oneYearFromNow_ex_env iso_date_2023_05_31 date_gt_def)

text \<open>
  C7, as stated, fails. With the clock at 2023-06-01T00:00:00Z the date 2024-06-01 is
  366 days ahead, and it is accepted: the bound is one calendar year, and the year that
  follows contains 29 February 2024.
\<close>

theorem validateDate_365_days_counterexample:
  "Date_new ex_env (JStr ''2024-06-01'') = Some 1717200000000
   \<and> 1717200000000 - clock_validate ex_env > 365 * msPerDay
   \<and> validateDate ex_env (JStr ''2024-06-01'') = Inr ''2024-06-01''"
proof -
  have a: "validateDate ex_env (JStr ''2024-06-01'') = Inr ''2024-06-01''"
    using validateDate_dateonly [OF parse_2024_06_01, of ex_env]
    by (simp add: oneYearFromNow_ex_env iso_date_2024_06_01 date_gt_def)
  have b: "clock_validate ex_env = 1685577600000"
    by (simp add: ex_env_def)
  show ?thesis
    by (simp add: a b Date_parse_def parse_2024_06_01 msPerDay_def)
qed

text \<open>
  C7, amended. Let \<open>oneYearFromNow\<close> be the instant with the local calendar date and time
  of the validation instant in the following year. A date input that is falsy or does
  not parse fails with a \<open>ValidationError\<close> on the field \<^verbatim>\<open>date\<close>; so does an input whose
  instant is later than \<open>oneYearFromNow\<close>. Every other input is accepted, and the result
  is the UTC calendar date of its instant as \<^verbatim>\<open>toISOString\<close> prints it, which has the
  form \<^verbatim>\<open>YYYY-MM-DD\<close> when the year is between 0 and 9999.
\<close>

theorem validateDate_one_year:
  "(\<not> truthy d \<or> Date_new env d = None
      \<longrightarrow> (\<exists>m. validateDate env d = Inl (ValidationError m (Some ''date''))))
   \<and> (truthy d \<and> Date_new env d = Some t \<and> oneYearFromNow env = Some u \<and> u < t
      \<longrightarrow> (\<exists>m. validateDate env d = Inl (ValidationError m (Some ''date''))))
   \<and> (truthy d \<and> Date_new env d = Some t \<and> (\<forall>u. oneYearFromNow env = Some u \<longrightarrow> t \<le> u)
      \<longrightarrow> validateDate env d = Inr (iso_date t)
          \<and> (0 \<le> YearFromTime t \<and> YearFromTime t \<le> 9999 \<longrightarrow> iso_date_shape (iso_date t)))"
  by (cases "oneYearFromNow env")
     (auto simp: validateDate_def date_gt_def split_toISOString iso_date_shape_iso_date)

theorem validateDate_one_year_witness:
  "truthy (JStr ''2023-05-31'')
   \<and> Date_new ex_env (JStr ''2023-05-31'') = Some 1685491200000
   \<and> oneYearFromNow ex_env = Some 1717200000000
   \<and> validateDate ex_env (JStr ''2023-05-31'') = Inr ''2023-05-31''
   \<and> iso_date_shape ''2023-05-31''"
proof -
  have p: "Date_parse ex_env ''2023-05-31'' = Some 1685491200000"
    by (simp add: Date_parse_def parse_2023_05_31)
  show ?thesis
    using validateDate_one_year [of "JStr ''2023-05-31''" ex_env 1685491200000 1717200000000]
    by (simp add: p oneYearFromNow_ex_env iso_date_2023_05_31 YearFromTime_2023_05_31)
qed

subsection \<open>The other fields\<close>

lemma validateAmount_field:
  "validateAmount a = Inl e \<Longrightarrow> is_ValidationError e \<and> error_field e = Some ''amount''"
  by (auto simp: validateAmount_def Let_def split: if_splits)

lemma validateTransactionType_field:
  "validateTransactionType t = Inl e \<Longrightarrow> is_ValidationError e \<Longrightarrow> error_field e = Some ''type''"
  by (auto simp: validateTransactionType_def Let_def split: if_splits js_value.splits)

lemma validateMerchant_field:
  "validateMerchant m = Inl e \<Longrightarrow> is_ValidationError e \<and> error_field e = Some ''merchant''"
  by (auto simp: validateMerchant_def Let_def split: if_splits js_value.splits)

lemma validateCategory_field:
  "validateCategory m = Inl e \<Longrightarrow> is_ValidationError e \<and> error_field e = Some ''category''"
  by (auto simp: validateCategory_def Let_def split: if_splits js_value.splits)

lemma validateAmount_12_50: "validateAmount (JNum (Finite (25 / 2))) = Inr (JNum (Finite (25 / 2)))"
  by (simp add: validateAmount_JNum)

lemma validateTransactionType_expense: "validateTransactionType (JStr ''expense'') = Inr ''expense''"
  by (simp add: validateTransactionType_def validTypes_def toLowerCase_def is_upper_def)

lemma validateMerchant_Starbucks: "validateMerchant (JStr ''Starbucks'') = Inr ''Starbucks''"
  by (simp add: validateMerchant_def trim_def is_space_def)

lemma validateCategory_Food: "validateCategory (JStr ''Food'') = Inr ''Food''"
  by (simp add: validateCategory_def trim_def is_space_def)

lemma trim_Coffee: "trim ''Coffee'' = ''Coffee''"
  by (simp add: trim_def is_space_def)

subsection \<open>Currency\<close>

lemma validateCurrency_cases:
  "validateCurrency c =
     (case c of
        JStr s \<Rightarrow>
          if s = [] then Inr ''USD''
          else if length (trim (toUpperCase s)) \<noteq> 3
          then Inl (ValidationError ''Currency must be a 3-letter code (e.g., USD, EUR)''
                     (Some ''currency''))
          else if \<not> three_capitals (trim (toUpperCase s))
          then Inl (ValidationError ''Currency code must contain only letters'' (Some ''currency''))
          else Inr (trim (toUpperCase s))
      | _ \<Rightarrow> Inr ''USD'')"
  by (simp add: validateCurrency_def Let_def split: js_value.splits)

lemma validateCurrency_Inl_iff:
  "(\<exists>e. validateCurrency c = Inl e)
   \<longleftrightarrow> (\<exists>s. c = JStr s \<and> s \<noteq> [] \<and> \<not> three_capitals (trim (toUpperCase s)))"
  by (cases c) (auto simp: validateCurrency_cases three_capitals_def)

lemma validateCurrency_field:
  "validateCurrency c = Inl e \<Longrightarrow> is_ValidationError e \<and> error_field e = Some ''currency''"
  by (cases c) (auto simp: validateCurrency_cases split: if_splits)

lemma validateCurrency_USD: "validateCurrency (JStr ''USD'') = Inr ''USD''"
  by (simp add: validateCurrency_cases three_capitals_def trim_def toUpperCase_def is_lower_def
        is_upper_def is_space_def)

lemma validateCurrency_nonstring: "(\<forall>s. c \<noteq> JStr s) \<Longrightarrow> validateCurrency c = Inr ''USD''"
  by (cases c) (simp_all add: validateCurrency_def)

lemma validateCurrency_default:
  "(\<forall>s. c \<noteq> JStr s) \<Longrightarrow> validateCurrency (js_or c (JStr ''USD'')) = Inr ''USD''"
  by (cases "truthy c") (simp_all add: js_or_def validateCurrency_USD validateCurrency_nonstring)

lemma validateTransaction_body_field:
  assumes "validateTransaction_body env t = Inl e" "is_ValidationError e"
  shows "error_field e \<in> {Some ''amount'', Some ''date'', Some ''type'', Some ''merchant'',
                            Some ''category'', Some ''description''}
         \<or> (\<exists>e'. validateCurrency (js_or (raw_currency t) (JStr ''USD'')) = Inl e')"
  using assms
  unfolding validateTransaction_body_def Let_def
  by (auto split: sum.splits if_splits
      dest!: validateAmount_field validateDate_field validateMerchant_field validateCategory_field
      dest: validateTransactionType_field)

lemma validateTransaction_currency_nonstring:
  assumes "\<forall>s. raw_currency t \<noteq> JStr s"
  shows "(\<forall>e. validateTransaction env t = Inl e \<longrightarrow> error_field e \<noteq> Some ''currency'')
         \<and> (\<forall>v. validateTransaction env t = Inr v \<longrightarrow> currency v = ''USD'')"
proof (intro conjI allI impI)
  fix e assume e: "validateTransaction env t = Inl e"
  show "error_field e \<noteq> Some ''currency''"
  proof (cases "validateTransaction_body env t")
    case (Inr v) with e show ?thesis by (simp add: validateTransaction_def)
  next
    case (Inl e0)
    show ?thesis
    proof (cases "is_ValidationError e0")
      case True
      with Inl e have "e = e0" by (simp add: validateTransaction_def)
      with validateTransaction_body_field [OF Inl True] validateCurrency_default [OF assms]
      show ?thesis by auto
    next
      case False
      with Inl e show ?thesis by (auto simp: validateTransaction_def)
    qed
  qed
next
  fix v assume "validateTransaction env t = Inr v"
  then have "validateTransaction_body env t = Inr v"
    by (auto simp: validateTransaction_def split: sum.splits if_splits)
  then show "currency v = ''USD''"
    unfolding validateTransaction_body_def Let_def validateCurrency_default [OF assms]
    by (auto split: sum.splits if_splits)
qed

text \<open>
  C10, as stated, fails at the empty string: it is a string whose trimmed, uppercased
  form is not three letters, and the check returns the default instead of raising.
\<close>

theorem validateCurrency_empty_string_counterexample:
  "\<not> three_capitals (trim (toUpperCase [])) \<and> validateCurrency (JStr []) = Inr ''USD''"
  by (simp add: validateCurrency_cases three_capitals_def trim_def toUpperCase_def)

text \<open>
  C10, amended. \<^verbatim>\<open>validateCurrency\<close> raises if and only if its input is a non-empty string
  whose uppercased, trimmed form is not exactly three letters \<^verbatim>\<open>A\<close> to \<^verbatim>\<open>Z\<close>, and what it
  raises is a \<open>ValidationError\<close> on the field \<^verbatim>\<open>currency\<close>. The empty string and every
  input that is not a string (absent, \<^verbatim>\<open>null\<close>, a boolean, a number, an object) yield
  \<^verbatim>\<open>USD\<close>. So the validation of a whole record whose currency is not a string never
  fails on the field \<^verbatim>\<open>currency\<close>, and when it succeeds the currency is \<^verbatim>\<open>USD\<close>.
\<close>

theorem validateCurrency_raises_iff:
  "((\<exists>e. validateCurrency c = Inl e)
      \<longleftrightarrow> (\<exists>s. c = JStr s \<and> s \<noteq> [] \<and> \<not> three_capitals (trim (toUpperCase s))))
   \<and> (\<forall>e. validateCurrency c = Inl e \<longrightarrow> is_ValidationError e \<and> error_field e = Some ''currency'')
   \<and> ((\<forall>s. c \<noteq> JStr s) \<longrightarrow> validateCurrency c = Inr ''USD'')
   \<and> validateCurrency (JStr []) = Inr ''USD''
   \<and> ((\<forall>s. raw_currency t \<noteq> JStr s) \<longrightarrow>
        (\<forall>e. validateTransaction env t = Inl e \<longrightarrow> error_field e \<noteq> Some ''currency'')
        \<and> (\<forall>v. validateTransaction env t = Inr v \<longrightarrow> currency v = ''USD''))"
  using validateCurrency_Inl_iff [of c] validateCurrency_field [of c]
    validateCurrency_nonstring [of c] validateTransaction_currency_nonstring [of t env]
  by (simp add: validateCurrency_cases)

lemma validateTransaction_ex_object_currency:
  "validateTransaction ex_env (ex_candidate\<lparr>raw_currency := JObj\<rparr>) =
     Inr \<lparr> amount = JNum (Finite (25 / 2)), date = ''2023-05-31'', type = ''expense'',
           merchant = ''Starbucks'', category = ''Food'', currency = ''USD'',
           description = ''Coffee'', source = JStr ''manual'', rawText = JStr [] \<rparr>"
  by (simp add: validateTransaction_def validateTransaction_body_def ex_candidate_def
        validateAmount_12_50 validateDate_2023_05_31 validateTransactionType_expense
        validateMerchant_Starbucks validateCategory_Food validateCurrency_nonstring js_or_def
        trim_Coffee)

theorem validateCurrency_raises_iff_witness:
  "(\<forall>s. JObj \<noteq> JStr s)
   \<and> validateCurrency JObj = Inr ''USD''
   \<and> (\<forall>s. raw_currency (ex_candidate\<lparr>raw_currency := JObj\<rparr>) \<noteq> JStr s)
   \<and> (\<exists>v. validateTransaction ex_env (ex_candidate\<lparr>raw_currency := JObj\<rparr>) = Inr v
          \<and> currency v = ''USD'')"
  using validateCurrency_raises_iff [of JObj "ex_candidate\<lparr>raw_currency := JObj\<rparr>" ex_env]
  by (simp add: validateTransaction_ex_object_currency)

section \<open>Properties of the Structured Extractor\<close>

lemma sublist_join: "x \<in> set xs \<Longrightarrow> sublist x (join sep xs)"
proof (induction sep xs rule: join.induct)
  case (1 sep)
  then show ?case by simp
next
  case (2 sep y)
  then show ?case by simp
next
  case (3 sep y z zs)
  show ?case
  proof (cases "x = y")
    case True
    then show ?thesis by simp
  next
    case False
    with 3 have "sublist x (join sep (z # zs))" by simp
    then obtain ps ss where "join sep (z # zs) = ps @ x @ ss"
      by (auto simp: sublist_def)
    then have "join sep (y # z # zs) = (y @ sep @ ps) @ x @ ss" by simp
    then show ?thesis unfolding sublist_def by blast
  qed
qed

lemma set_missingFields:
  "set (missingFields rd) = {f \<in> set requiredFields. rd f = JUndefined \<or> rd f = JNull}"
  by (auto simp: missingFields_def)

lemma extract_reaches_check:
  assumes "s \<noteq> []" "trim s \<noteq> []" "openai_key_configured env"
    and "openai_completion env (user_message s) = Inr (Some r)" "r \<noteq> []"
    and "JSON_parse env (cleanJson r) = Inr p"
  shows "extractTransactionFromText env w (JStr s) =
           (check_and_complete env p, log_event (OpenAIRequest (user_message s)) w)"
  using assms by (simp add: extractTransactionFromText_def Let_def)

text \<open>Worked values for the example answers.\<close>

lemma trim_ex_message: "trim ex_message = ex_message"
  by (simp add: ex_message_def trim_def is_space_def)

lemma cleanJson_ex_response_missing: "cleanJson ex_response_missing = ex_response_missing"
  by (simp add: cleanJson_def remove_newlines_def trim_def is_space_def ex_response_missing_def
        dq_def)

lemma cleanJson_ex_response_full: "cleanJson ex_response_full = ex_response_full"
  by (simp add: cleanJson_def remove_newlines_def trim_def is_space_def ex_response_full_def
        dq_def)

lemma json_value_start_ex:
  "json_value_start ex_response_missing" "json_value_start ex_response_full"
  by (simp_all add: json_value_start_def json_space_def ex_response_missing_def
        ex_response_full_def)

lemma ex_responses_differ: "ex_response_missing \<noteq> ex_response_full"
  by (simp add: ex_response_missing_def ex_response_full_def dq_def)

lemma JSON_parse_ex_missing:
  "JSON_parse ex_env_missing ex_response_missing = Inr (ParsedObject ex_candidate_missing)"
  by (simp add: JSON_parse_def json_value_start_ex ex_env_missing_def ex_env_def ex_parse_def
        ex_responses_differ)

lemma missingFields_ex_missing:
  "missingFields (get_field ex_candidate_missing) = [''merchant'', ''type'']"
  by (simp add: missingFields_def requiredFields_def get_field_def ex_candidate_missing_def)

text \<open>The answer \<^verbatim>\<open>null\<close>, run.\<close>

lemma cleanJson_null: "cleanJson ''null'' = ''null''"
  by (simp add: cleanJson_def remove_newlines_def trim_def is_space_def)

lemma JSON_parse_null: "JSON_parse ex_env_null ''null'' = Inr ParsedNull"
  by (simp add: JSON_parse_def json_value_start_def json_space_def ex_env_null_def)

lemma check_and_complete_null:
  "check_and_complete env ParsedNull
     = Inl (LLMError (''Failed to extract transaction data: ''
                      @ ''Cannot read properties of null (reading '' @ [CHR 0x27] @ ''amount''
                      @ [CHR 0x27] @ '')''))"
  by (simp add: check_and_complete_def llm_failure_def requiredFields_def)

text \<open>
  C4, as stated, fails when the answer of the language model is the JSON text \<^verbatim>\<open>null\<close>. It
  parses, all five required keys are absent from it, and the extractor fails with
  \<^verbatim>\<open>Failed to extract transaction data: Cannot read properties of null (reading 'amount')\<close>:
  the message of the \<open>TypeError\<close> that reading the first key throws, not the list of the
  missing keys. The key \<^verbatim>\<open>merchant\<close>, for one, is not in it.
\<close>

theorem null_response_counterexample:
  "openai_completion ex_env_null (user_message ex_message) = Inr (Some ''null'')
   \<and> JSON_parse ex_env_null (cleanJson ''null'') = Inr ParsedNull
   \<and> fst (extractTransactionFromText ex_env_null (ex_world []) (JStr ex_message))
       = Inl (LLMError (''Failed to extract transaction data: ''
                        @ ''Cannot read properties of null (reading '' @ [CHR 0x27] @ ''amount''
                        @ [CHR 0x27] @ '')''))
   \<and> \<not> sublist ''merchant''
         (''Failed to extract transaction data: ''
          @ ''Cannot read properties of null (reading '' @ [CHR 0x27] @ ''amount''
          @ [CHR 0x27] @ '')'')"
proof -
  have h1: "ex_message \<noteq> []" "trim ex_message \<noteq> []"
    by (simp_all add: trim_ex_message) (simp_all add: ex_message_def)
  have h3: "openai_key_configured ex_env_null"
    by (simp add: ex_env_null_def ex_env_def)
  have h4: "openai_completion ex_env_null (user_message ex_message) = Inr (Some ''null'')"
    by (simp add: ex_env_null_def)
  have h6: "JSON_parse ex_env_null (cleanJson ''null'') = Inr ParsedNull"
    by (simp add: cleanJson_null JSON_parse_null)
  have r: "fst (extractTransactionFromText ex_env_null (ex_world []) (JStr ex_message))
       = Inl (LLMError (''Failed to extract transaction data: ''
                        @ ''Cannot read properties of null (reading '' @ [CHR 0x27] @ ''amount''
                        @ [CHR 0x27] @ '')''))"
    using extract_reaches_check [OF h1 h3 h4 _ h6, of "ex_world []"]
    by (simp add: check_and_complete_null)
  have n: "\<not> sublist ''merchant''
         (''Failed to extract transaction data: ''
          @ ''Cannot read properties of null (reading '' @ [CHR 0x27] @ ''amount''
          @ [CHR 0x27] @ '')'')"
    by (simp add: sublist_Cons_right)
  from h4 h6 r n show ?thesis by (simp only: simp_thms)
qed

text \<open>
  C4, amended. When the answer of the language model parses to an object, or to an array
  or a primitive value, in which at least one of the five required keys is absent or
  \<^verbatim>\<open>null\<close>, the extractor fails with an \<open>LLMError\<close> whose message is
  \<^verbatim>\<open>Missing required fields in LLM response: \<close> followed by all the missing keys, joined by
  commas, in the order of the list of required fields: every missing key occurs in it.
  When the answer parses to \<^verbatim>\<open>null\<close>, the extractor fails with an \<open>LLMError\<close> too, and the
  message is that of the \<open>TypeError\<close> on the first required key.
\<close>

theorem missing_fields_all_named:
  assumes "s \<noteq> []" "trim s \<noteq> []" "openai_key_configured env"
    and "openai_completion env (user_message s) = Inr (Some r)" "r \<noteq> []"
    and "JSON_parse env (cleanJson r) = Inr p"
  shows "(((p = ParsedObject t \<and> rd = get_field t) \<or> (p = ParsedOther \<and> rd = (\<lambda>f. JUndefined)))
          \<and> (\<exists>f \<in> set requiredFields. rd f = JUndefined \<or> rd f = JNull)
          \<longrightarrow> fst (extractTransactionFromText env w (JStr s)) =
                Inl (LLMError (''Missing required fields in LLM response: ''
                               @ join '', '' (missingFields rd)
                               @ ''. Response: '' @ JSON_stringify env p))
              \<and> (\<forall>f \<in> set requiredFields. rd f = JUndefined \<or> rd f = JNull
                    \<longrightarrow> f \<in> set (missingFields rd) \<and> sublist f (join '', '' (missingFields rd))))
         \<and> (p = ParsedNull
          \<longrightarrow> fst (extractTransactionFromText env w (JStr s)) =
                Inl (LLMError (''Failed to extract transaction data: ''
                       @ ''Cannot read properties of null (reading '' @ [CHR 0x27] @ hd requiredFields
                       @ [CHR 0x27] @ '')'')))"
proof -
  have A: "fst (extractTransactionFromText env w (JStr s)) =
                Inl (LLMError (''Missing required fields in LLM response: ''
                               @ join '', '' (missingFields rd)
                               @ ''. Response: '' @ JSON_stringify env p))
              \<and> (\<forall>f \<in> set requiredFields. rd f = JUndefined \<or> rd f = JNull
                    \<longrightarrow> f \<in> set (missingFields rd) \<and> sublist f (join '', '' (missingFields rd)))"
    if h7: "(p = ParsedObject t \<and> rd = get_field t) \<or> (p = ParsedOther \<and> rd = (\<lambda>f. JUndefined))"
      and h8: "\<exists>f \<in> set requiredFields. rd f = JUndefined \<or> rd f = JNull"
  proof -
    from h8 have ne: "length (missingFields rd) > 0"
      by (auto simp: missingFields_def filter_empty_conv)
    have "check_and_complete env p
            = Inl (LLMError (missing_fields_message env (missingFields rd) p))"
      using h7 ne by (auto simp: check_and_complete_def Let_def)
    then have a: "fst (extractTransactionFromText env w (JStr s)) =
             Inl (LLMError (''Missing required fields in LLM response: ''
                            @ join '', '' (missingFields rd)
                            @ ''. Response: '' @ JSON_stringify env p))"
      using extract_reaches_check [OF assms(1-6)] by (simp add: missing_fields_message_def)
    have b: "\<forall>f \<in> set requiredFields. rd f = JUndefined \<or> rd f = JNull
                 \<longrightarrow> f \<in> set (missingFields rd) \<and> sublist f (join '', '' (missingFields rd))"
      by (auto simp: set_missingFields intro!: sublist_join)
    from a b show ?thesis by blast
  qed
  have B: "fst (extractTransactionFromText env w (JStr s)) =
                Inl (LLMError (''Failed to extract transaction data: ''
                       @ ''Cannot read properties of null (reading '' @ [CHR 0x27] @ hd requiredFields
                       @ [CHR 0x27] @ '')''))"
    if "p = ParsedNull"
    using extract_reaches_check [OF assms(1-6)] that
    by (simp add: check_and_complete_def llm_failure_def)
  from A B show ?thesis by blast
qed

theorem missing_fields_all_named_witness:
  "ex_message \<noteq> [] \<and> trim ex_message \<noteq> [] \<and> openai_key_configured ex_env_missing
   \<and> openai_completion ex_env_missing (user_message ex_message) = Inr (Some ex_response_missing)
   \<and> ex_response_missing \<noteq> []
   \<and> JSON_parse ex_env_missing (cleanJson ex_response_missing)
       = Inr (ParsedObject ex_candidate_missing)
   \<and> raw_merchant ex_candidate_missing = JUndefined \<and> raw_type ex_candidate_missing = JUndefined
   \<and> fst (extractTransactionFromText ex_env_missing (ex_world []) (JStr ex_message)) =
        Inl (LLMError ''Missing required fields in LLM response: merchant, type. Response: {}'')
   \<and> sublist ''merchant'' ''merchant, type'' \<and> sublist ''type'' ''merchant, type''"
proof -
  have h1: "ex_message \<noteq> []" "trim ex_message \<noteq> []"
    by (simp_all add: trim_ex_message) (simp_all add: ex_message_def)
  have h3: "openai_key_configured ex_env_missing"
    by (simp add: ex_env_missing_def ex_env_def)
  have h4: "openai_completion ex_env_missing (user_message ex_message) = Inr (Some ex_response_missing)"
    by (simp add: ex_env_missing_def)
  have h5: "ex_response_missing \<noteq> []"
    by (simp add: ex_response_missing_def)
  have h6: "JSON_parse ex_env_missing (cleanJson ex_response_missing)
              = Inr (ParsedObject ex_candidate_missing)"
    by (simp add: cleanJson_ex_response_missing JSON_parse_ex_missing)
  have h8: "\<exists>f \<in> set requiredFields. get_field ex_candidate_missing f = JUndefined
              \<or> get_field ex_candidate_missing f = JNull"
    by (simp add: requiredFields_def get_field_def ex_candidate_missing_def)
  have st: "JSON_stringify ex_env_missing (ParsedObject ex_candidate_missing) = ''{}''"
    by (simp add: ex_env_missing_def ex_env_def)
  have m: "raw_merchant ex_candidate_missing = JUndefined" "raw_type ex_candidate_missing = JUndefined"
    by (simp_all add: ex_candidate_missing_def)
  have g: "get_field ex_candidate_missing ''merchant'' = JUndefined"
    "get_field ex_candidate_missing ''type'' = JUndefined"
    by (simp_all add: get_field_def ex_candidate_missing_def)
  have rq: "''merchant'' \<in> set requiredFields" "''type'' \<in> set requiredFields"
    by (simp_all add: requiredFields_def)
  from missing_fields_all_named
         [OF h1 h3 h4 h5 h6, of ex_candidate_missing "get_field ex_candidate_missing" "ex_world []"]
    h8
  have inst: "fst (extractTransactionFromText ex_env_missing (ex_world []) (JStr ex_message)) =
                Inl (LLMError (''Missing required fields in LLM response: ''
                               @ join '', '' (missingFields (get_field ex_candidate_missing))
                               @ ''. Response: ''
                               @ JSON_stringify ex_env_missing (ParsedObject ex_candidate_missing)))
              \<and> (\<forall>f \<in> set requiredFields.
                    get_field ex_candidate_missing f = JUndefined
                    \<or> get_field ex_candidate_missing f = JNull
                    \<longrightarrow> f \<in> set (missingFields (get_field ex_candidate_missing))
                        \<and> sublist f (join '', '' (missingFields (get_field ex_candidate_missing))))"
    by blast
  from inst have r: "fst (extractTransactionFromText ex_env_missing (ex_world []) (JStr ex_message)) =
        Inl (LLMError ''Missing required fields in LLM response: merchant, type. Response: {}'')"
    by (simp add: missingFields_ex_missing st)
  from inst rq g have s1: "sublist ''merchant'' ''merchant, type''"
    and s2: "sublist ''type'' ''merchant, type''"
    by (auto simp: missingFields_ex_missing)
  from h1 h3 h4 h5 h6 m r s1 s2 show ?thesis by simp
qed

lemma trim_Cons_nonspace: "\<not> is_space c \<Longrightarrow> \<exists>zs. trim (c # ys) = c # zs"
  by (simp add: trim_def dropWhile_append3)

lemma cleanJson_json_fence:
  "\<exists>zs. cleanJson ([CHR 0x60, CHR 0x60, CHR 0x60] @ ''json'' @ rest) = CHR ''j'' # zs"
proof -
  have "remove_fences (remove_newlines ([CHR 0x60, CHR 0x60, CHR 0x60] @ ''json'' @ rest))
        = CHR ''j'' # remove_fences (''son'' @ remove_newlines rest)"
    by (simp add: remove_newlines_def)
  then show ?thesis
    unfolding cleanJson_def using trim_Cons_nonspace [of "CHR ''j''"]
    by (simp add: is_space_def)
qed

lemma json_value_start_j: "\<not> json_value_start (CHR ''j'' # zs)"
  by (simp add: json_value_start_def json_space_def)

text \<open>
  C5 does not hold of the code. The first replacement, \<^verbatim>\<open>replace(/\n?/g, '')\<close>, removes
  line feeds and not the opening fence with its language tag, so of a block that opens
  with three backticks and \<^verbatim>\<open>json\<close> the tag \<^verbatim>\<open>json\<close> is left in front of the text. No
  JSON text begins with \<^verbatim>\<open>j\<close>: \<^verbatim>\<open>JSON.parse\<close> throws and the extractor fails with
  \<^verbatim>\<open>Failed to parse JSON response from OpenAI\<close>, whatever the block contains.
\<close>

theorem fenced_json_not_parsed:
  assumes "s \<noteq> []" "trim s \<noteq> []" "openai_key_configured env"
    and "openai_completion env (user_message s)
           = Inr (Some ([CHR 0x60, CHR 0x60, CHR 0x60] @ ''json'' @ rest))"
  shows "fst (extractTransactionFromText env w (JStr s)) =
           Inl (LLMError (''Failed to parse JSON response from OpenAI: ''
                @ JSON_SyntaxError_message env
                    (cleanJson ([CHR 0x60, CHR 0x60, CHR 0x60] @ ''json'' @ rest))))"
proof -
  obtain zs where zs: "cleanJson ([CHR 0x60, CHR 0x60, CHR 0x60] @ ''json'' @ rest) = CHR ''j'' # zs"
    using cleanJson_json_fence by blast
  have "JSON_parse env (cleanJson ([CHR 0x60, CHR 0x60, CHR 0x60] @ ''json'' @ rest))
        = Inl (SyntaxError (JSON_SyntaxError_message env
                 (cleanJson ([CHR 0x60, CHR 0x60, CHR 0x60] @ ''json'' @ rest))))"
    unfolding JSON_parse_def zs using json_value_start_j by simp
  then show ?thesis
    using assms by (simp add: extractTransactionFromText_def Let_def del: append.simps)
qed

lemma cleanJson_ex_response_fenced: "cleanJson ex_response_fenced = ''json'' @ ex_response_full"
  by (simp add: cleanJson_def remove_newlines_def trim_def is_space_def ex_response_fenced_def
        ex_response_full_def dq_def)

theorem fenced_json_not_parsed_witness:
  "ex_message \<noteq> [] \<and> trim ex_message \<noteq> [] \<and> openai_key_configured ex_env_fenced
   \<and> openai_completion ex_env_fenced (user_message ex_message) = Inr (Some ex_response_fenced)
   \<and> cleanJson ex_response_fenced = ''json'' @ ex_response_full
   \<and> fst (extractTransactionFromText ex_env_fenced (ex_world []) (JStr ex_message)) =
        Inl (LLMError ''Failed to parse JSON response from OpenAI: Unexpected token'')"
proof -
  have h1: "ex_message \<noteq> []" "trim ex_message \<noteq> []"
    by (simp_all add: trim_ex_message) (simp_all add: ex_message_def)
  have h3: "openai_key_configured ex_env_fenced"
    by (simp add: ex_env_fenced_def ex_env_def)
  have h4: "openai_completion ex_env_fenced (user_message ex_message)
              = Inr (Some ([CHR 0x60, CHR 0x60, CHR 0x60] @ ''json''
                            @ ([CHR 0x0A] @ ex_response_full @ [CHR 0x0A]
                               @ [CHR 0x60, CHR 0x60, CHR 0x60])))"
    by (simp add: ex_env_fenced_def ex_response_fenced_def)
  have h4': "openai_completion ex_env_fenced (user_message ex_message) = Inr (Some ex_response_fenced)"
    by (simp add: ex_env_fenced_def)
  have msg: "JSON_SyntaxError_message ex_env_fenced x = ''Unexpected token''" for x
    by (simp add: ex_env_fenced_def ex_env_def)
  from fenced_json_not_parsed [OF h1 h3 h4, of "ex_world []"]
  have r: "fst (extractTransactionFromText ex_env_fenced (ex_world []) (JStr ex_message)) =
        Inl (LLMError ''Failed to parse JSON response from OpenAI: Unexpected token'')"
    by (simp add: msg)
  from h1 h3 h4' r cleanJson_ex_response_fenced show ?thesis by simp
qed

section \<open>Properties of the Transaction Store\<close>

subsection \<open>Duplicate check\<close>

text \<open>
  The tolerance test is made in floats: the difference and the quotient are rounded, and
  the bound is the float that \<^verbatim>\<open>0.05\<close> denotes. So \<^verbatim>\<open>13.10\<close> against \<^verbatim>\<open>12.5\<close> is inside the
  tolerance (the quotient is the float \<open>0.04799999999999997\<close>), and \<^verbatim>\<open>1.05\<close> against \<^verbatim>\<open>1\<close>
  is outside it: the float that \<^verbatim>\<open>1.05\<close> denotes less 1 is \<open>0.050000000000000044\<close>, above
  the float \<open>0.05\<close>.
\<close>

lemma within_tolerance_ex:
  "within_tolerance (JNum (round_double (131 / 10))) (JNum (Finite (25 / 2)))"
proof -
  have d: "round_double (337769972052787 / 562949953421312)
             = Finite (337769972052787 / 562949953421312)"
    by (rule round_double_eqI [where e = "- 53" and m = 5404319552844592]) simp_all
  have q: "round_double (337769972052787 / 7036874417766400)
             = Finite (3458764513820539 / 72057594037927936)"
    by (rule round_double_eqI [where e = "- 57" and m = 6917529027641078]) simp_all
  show ?thesis
    by (simp add: within_tolerance_def round_double_13_10 tolerance_value Let_def d q)
qed

lemma within_tolerance_boundary:
  "\<not> within_tolerance (JNum (round_double (105 / 100))) (JNum (Finite 1))"
proof -
  have a: "round_double (21 / 20) = Finite (4728779608739021 / 4503599627370496)"
    by (rule round_double_eqI [where e = "- 52" and m = 4728779608739021]) simp_all
  have d: "round_double (225179981368525 / 4503599627370496)
             = Finite (225179981368525 / 4503599627370496)"
    by (rule round_double_eqI [where e = "- 57" and m = 7205759403792800]) simp_all
  show ?thesis
    by (simp add: within_tolerance_def tolerance_value Let_def a d)
qed

text \<open>
  With the index, the check returns exactly the records of the table that have the
  user, merchant and date of the candidate and an amount within the tolerance.
\<close>

lemma checkForDuplicates_indexed:
  assumes "query_index_failure env = None"
  shows "checkForDuplicates env tbl uid d =
           Inr (filter (\<lambda>i. userId i = uid \<and> merchant i = merchant d \<and> date i = date d
                            \<and> within_tolerance (amount i) (amount d)) tbl)"
proof -
  have "filter (\<lambda>it. if userId it \<noteq> uid then False else within_tolerance (amount it) (amount d))
          (filter (\<lambda>i. merchant i = merchant d \<and> date i = date d) tbl)
        = filter (\<lambda>i. userId i = uid \<and> merchant i = merchant d \<and> date i = date d
                       \<and> within_tolerance (amount i) (amount d)) tbl"
    by (induction tbl) auto
  then show ?thesis
    using assms by (simp add: checkForDuplicates_def dynamo_query_index_def)
qed

text \<open>Without it, the same holds of the first hundred records that the scan reads.\<close>

lemma checkForDuplicates_fallback:
  assumes "query_index_failure env = Some err"
    and "aws_code err = ''ResourceNotFoundException'' \<or> str_includes (aws_message err) ''index''"
    and "scan_failure env = None"
  shows "checkForDuplicates env tbl uid d =
           Inr (filter (\<lambda>i. userId i = uid \<and> merchant i = merchant d \<and> date i = date d
                            \<and> within_tolerance (amount i) (amount d)) (take 100 tbl))"
proof -
  have "filter (\<lambda>it. within_tolerance (amount it) (amount d))
          (filter (\<lambda>i. userId i = uid \<and> merchant i = merchant d \<and> date i = date d) xs)
        = filter (\<lambda>i. userId i = uid \<and> merchant i = merchant d \<and> date i = date d
                       \<and> within_tolerance (amount i) (amount d)) xs"
    for xs :: "item list"
    by (induction xs) auto
  then show ?thesis
    using assms
    by (simp add: checkForDuplicates_def checkForDuplicatesFallback_def dynamo_scan_def)
qed

lemma ex_filler_fields: "userId (ex_filler k) = ''user-2''"
  by (simp add: ex_filler_def)

lemma length_ex_fillers: "length ex_fillers = 100"
  by (simp add: ex_fillers_def)

lemma ex_stored_fields:
  "userId ex_stored = ''user-1''" "merchant ex_stored = ''Starbucks''"
  "date ex_stored = ''2023-05-31''" "amount ex_stored = JNum (round_double (131 / 10))"
  by (simp_all add: ex_stored_def)

lemma ex_validated_fields:
  "merchant (ex_validated s r) = ''Starbucks''" "date (ex_validated s r) = ''2023-05-31''"
  "amount (ex_validated s r) = JNum (Finite (25 / 2))"
  by (simp_all add: ex_validated_def)

lemma index_message: "str_includes ''The table does not have the specified index: merchant-date-index'' ''index''"
proof -
  have "''The table does not have the specified index: merchant-date-index''
        = ''The table does not have the specified '' @ ''index'' @ '': merchant-date-index''"
    by simp
  then show ?thesis
    unfolding str_includes_def sublist_def by blast
qed

text \<open>
  C1 does not hold of the fallback path. The table holds the hundred records of another
  user and then a record of the user that duplicates the candidate. With the index the
  duplicate is found. Without it the scan reads the first hundred records, none passes
  the filter, and the check returns the empty list.
\<close>

theorem fallback_scan_misses_duplicate:
  "checkForDuplicates ex_env (ex_fillers @ [ex_stored]) ''user-1''
       (ex_validated (JStr ''manual'') (JStr ex_message)) = Inr [ex_stored]
   \<and> checkForDuplicates ex_env_no_index (ex_fillers @ [ex_stored]) ''user-1''
       (ex_validated (JStr ''manual'') (JStr ex_message)) = Inr []"
proof -
  have no: "filter (\<lambda>i. userId i = ''user-1'' \<and> P i) ex_fillers = []" for P
    by (auto simp: ex_fillers_def ex_filler_fields filter_empty_conv)
  have a: "query_index_failure ex_env = None"
    by (simp add: ex_env_def)
  have b: "query_index_failure ex_env_no_index
             = Some (AwsError ''ValidationException''
                 ''The table does not have the specified index: merchant-date-index'')"
    "scan_failure ex_env_no_index = None"
    by (simp_all add: ex_env_no_index_def ex_env_def)
  have c: "aws_code (AwsError ''ValidationException''
                 ''The table does not have the specified index: merchant-date-index'')
             = ''ResourceNotFoundException''
           \<or> str_includes (aws_message (AwsError ''ValidationException''
                 ''The table does not have the specified index: merchant-date-index'')) ''index''"
    using index_message by simp
  show ?thesis
    unfolding checkForDuplicates_indexed [OF a] checkForDuplicates_fallback [OF b(1) c b(2)]
    by (simp add: no length_ex_fillers ex_stored_fields ex_validated_fields within_tolerance_ex)
qed

subsection \<open>Listing by user\<close>

text \<open>
  What the listing returns: at most \<open>limit\<close> records, all of the user, in descending
  order of \<open>transactionId\<close>.
\<close>

lemma getUserTransactions_result:
  assumes "getUserTransactions env tbl uid limit_opt = Inr xs"
  shows "int (length xs) \<le> (case limit_opt of None \<Rightarrow> 100 | Some n \<Rightarrow> n)
         \<and> (\<forall>x \<in> set xs. userId x = uid \<and> x \<in> set tbl)
         \<and> sorted (rev (map transactionId xs))"
proof -
  let ?l = "case limit_opt of None \<Rightarrow> 100 | Some n \<Rightarrow> n"
  let ?ys = "sort_key transactionId (filter (\<lambda>i. userId i = uid) tbl)"
  from assms have l: "1 \<le> ?l" and xs: "xs = take (nat ?l) (rev ?ys)"
    by (auto simp: getUserTransactions_def Let_def dynamo_query_partition_desc_def
             split: if_splits option.splits)
  have "sorted (map transactionId ?ys)" by simp
  then have "sorted (rev (map transactionId (rev ?ys)))" by (simp add: rev_map)
  then have "sorted (drop (length ?ys - nat ?l) (map transactionId ?ys))"
    by simp
  then have s: "sorted (rev (map transactionId xs))"
    unfolding xs by (simp add: rev_map take_rev drop_map)
  have "set xs \<subseteq> set ?ys" unfolding xs by (metis set_rev set_take_subset)
  then have m: "\<forall>x \<in> set xs. userId x = uid \<and> x \<in> set tbl" by auto
  have "length xs \<le> nat ?l" unfolding xs by simp
  with l have "int (length xs) \<le> ?l" by linarith
  with m s show ?thesis by blast
qed

text \<open>
  C8 does not hold of the code. The sort key of the table is \<open>transactionId\<close>, a random
  identifier, and \<^verbatim>\<open>ScanIndexForward: false\<close> orders by it. Of the two records of the user,
  the one with the larger identifier is the older one, and it is listed first, in
  whatever order the table holds them.
\<close>

theorem getUserTransactions_not_newest_first:
  "getUserTransactions ex_env [ex_stored, ex_newer] ''user-1'' None = Inr [ex_stored, ex_newer]
   \<and> getUserTransactions ex_env [ex_newer, ex_stored] ''user-1'' None = Inr [ex_stored, ex_newer]
   \<and> timestamp ex_stored < timestamp ex_newer"
proof -
  have a: "query_partition_failure ex_env = None"
    by (simp add: ex_env_def)
  have k: "transactionId ex_newer < transactionId ex_stored"
    "userId ex_newer = ''user-1''" "userId ex_stored = ''user-1''"
    "timestamp ex_stored < timestamp ex_newer"
    by (simp_all add: ex_newer_def ex_stored_def)
  then have "\<not> transactionId ex_stored \<le> transactionId ex_newer"
    "transactionId ex_newer \<le> transactionId ex_stored"
    by auto
  with k show ?thesis
    by (simp add: getUserTransactions_def a dynamo_query_partition_desc_def)
qed

section \<open>Properties of the Transaction Pipeline\<close>

subsection \<open>What each stage changes\<close>

lemma log_event_fields [simp]:
  "table (log_event e w) = table w" "files (log_event e w) = files w"
  "trace (log_event e w) = trace w @ [e]"
  by (simp_all add: log_event_def)

lemma log_event_counts [simp]:
  "create_calls (log_event e w) = create_calls w + (if is_create_call e then 1 else 0)"
  "cleanup_calls (log_event e w) = cleanup_calls w + (if is_cleanup_call e then 1 else 0)"
  "textract_requests (log_event e w)
     = textract_requests w + (if is_textract_request e then 1 else 0)"
  by (simp_all add: create_calls_def cleanup_calls_def textract_requests_def)

lemma extractTransactionFromText_frame:
  assumes "extractTransactionFromText env w text = (r, w1)"
  shows "table w1 = table w \<and> files w1 = files w \<and> create_calls w1 = create_calls w
         \<and> cleanup_calls w1 = cleanup_calls w \<and> textract_requests w1 = textract_requests w"
  using assms
  by (auto simp: extractTransactionFromText_def Let_def
           split: js_value.splits if_splits sum.splits option.splits)

lemma extractTextFromImage_frame:
  assumes "extractTextFromImage env w p = (r, w1)"
  shows "table w1 = table w \<and> files w1 = files w \<and> create_calls w1 = create_calls w
         \<and> cleanup_calls w1 = cleanup_calls w"
  using assms
  by (auto simp: extractTextFromImage_def Let_def
           split: if_splits sum.splits option.splits)

lemma extractTextFromBuffer_frame:
  assumes "extractTextFromBuffer env w n = (r, w1)"
  shows "table w1 = table w \<and> files w1 = files w \<and> create_calls w1 = create_calls w
         \<and> cleanup_calls w1 = cleanup_calls w"
  using assms
  by (auto simp: extractTextFromBuffer_def Let_def
           split: if_splits sum.splits option.splits)

text \<open>\<^verbatim>\<open>cleanupImageFile\<close> never throws, whether or not \<^verbatim>\<open>unlink\<close> fails.\<close>

lemma cleanupImageFile_frame:
  assumes "cleanupImageFile env w p = (r, w1)"
  shows "r = Inr () \<and> table w1 = table w \<and> create_calls w1 = create_calls w
         \<and> cleanup_calls w1 = cleanup_calls w + 1 \<and> textract_requests w1 = textract_requests w"
  using assms
  by (auto simp: cleanupImageFile_def Let_def create_calls_def cleanup_calls_def
             textract_requests_def
           split: if_splits sum.splits option.splits)

lemma createTransaction_frame:
  assumes "createTransaction env w uid v = (r, w1)"
  shows "create_calls w1 = create_calls w + 1 \<and> cleanup_calls w1 = cleanup_calls w
         \<and> files w1 = files w
         \<and> (case r of Inl e \<Rightarrow> table w1 = table w
             | Inr it \<Rightarrow> it = new_item env uid v \<and> table w1 = dynamo_put (table w) it)"
  using assms
  by (auto simp: createTransaction_def Let_def create_calls_def cleanup_calls_def
           split: option.splits)

subsection \<open>The stages on the example request\<close>

lemma validateUserId_user_1: "validateUserId (JStr ''user-1'') = Inr ''user-1''"
  by (simp add: validateUserId_def trim_def is_space_def)

lemma ex_env_fields:
  "openai_key_configured ex_env" "openai_completion ex_env req = Inr (Some ex_response_full)"
  "JSON_parse_accepting ex_env = ex_parse" "query_index_failure ex_env = None"
  "put_failure ex_env = None" "readFile_failure ex_env = None"
  "textract_response ex_env =
     Inr (Some [\<lparr> BlockType = ''PAGE'', Text = None \<rparr>,
                \<lparr> BlockType = ''LINE'', Text = Some ''Starbucks'' \<rparr>,
                \<lparr> BlockType = ''LINE'', Text = Some ''Total 12.50'' \<rparr>])"
  by (simp_all add: ex_env_def)

lemma ex_response_full_nonempty: "ex_response_full \<noteq> []"
  by (simp add: ex_response_full_def)

lemma JSON_parse_ex_full: "JSON_parse ex_env ex_response_full = Inr (ParsedObject ex_candidate)"
  by (simp add: JSON_parse_def json_value_start_ex ex_env_fields ex_parse_def)

lemma iso_date_shape_2023_05_31: "iso_date_shape ''2023-05-31''"
  by (simp add: iso_date_shape_def is_digit_def)

lemma postprocess_ex_candidate: "postprocess ex_env ex_candidate = ex_candidate"
  by (simp add: postprocess_def ex_candidate_def iso_date_shape_2023_05_31 js_or_def)

lemma missingFields_ex_candidate: "missingFields (get_field ex_candidate) = []"
  by (simp add: missingFields_def requiredFields_def get_field_def ex_candidate_def)

lemma check_and_complete_ex: "check_and_complete ex_env (ParsedObject ex_candidate) = Inr ex_candidate"
  by (simp add: check_and_complete_def missingFields_ex_candidate postprocess_ex_candidate)

lemma extract_ex:
  assumes "s \<noteq> []" "trim s \<noteq> []"
  shows "extractTransactionFromText ex_env w (JStr s) =
           (Inr ex_candidate, log_event (OpenAIRequest (user_message s)) w)"
  using extract_reaches_check [OF assms ex_env_fields(1) ex_env_fields(2) ex_response_full_nonempty,
          of "ParsedObject ex_candidate" w]
  by (simp add: cleanJson_ex_response_full JSON_parse_ex_full check_and_complete_ex)

lemma validateTransaction_ex:
  assumes "src \<noteq> []" "s \<noteq> []"
  shows "validateTransaction ex_env (with_source ex_candidate src (JStr s))
           = Inr (ex_validated (JStr src) (JStr s))"
  using assms
  by (simp add: validateTransaction_def validateTransaction_body_def with_source_def
        ex_candidate_def ex_validated_def validateAmount_12_50 validateDate_2023_05_31
        validateTransactionType_expense validateMerchant_Starbucks validateCategory_Food
        validateCurrency_USD js_or_def trim_Coffee)

lemma checkForDuplicates_ex_stored:
  "checkForDuplicates ex_env [ex_stored] ''user-1'' (ex_validated a b) = Inr [ex_stored]"
  unfolding checkForDuplicates_indexed [OF ex_env_fields(4)]
  by (simp add: ex_stored_fields ex_validated_fields within_tolerance_ex)

lemma checkForDuplicates_ex_empty:
  "checkForDuplicates ex_env [] ''user-1'' (ex_validated a b) = Inr []"
  unfolding checkForDuplicates_indexed [OF ex_env_fields(4)] by simp

lemma lines_text_ex: "lines_text (Some [\<lparr> BlockType = ''PAGE'', Text = None \<rparr>,
                \<lparr> BlockType = ''LINE'', Text = Some ''Starbucks'' \<rparr>,
                \<lparr> BlockType = ''LINE'', Text = Some ''Total 12.50'' \<rparr>]) = ex_ocr_text"
  by (simp add: lines_text_def ex_ocr_text_def trim_def is_space_def)

lemma trim_ex_ocr_text: "trim ex_ocr_text = ex_ocr_text"
  by (simp add: ex_ocr_text_def trim_def is_space_def)

lemma ex_ocr_text_nonempty: "ex_ocr_text \<noteq> []"
  by (simp add: ex_ocr_text_def)

lemma ex_path_nonempty: "ex_path \<noteq> []"
  by (simp add: ex_path_def)

lemma extractTextFromImage_ex:
  assumes "files w ex_path = Some 204800"
  shows "extractTextFromImage ex_env w ex_path
           = (Inr ex_ocr_text, log_event (TextractRequest ex_path) w)"
  using assms
  by (simp add: extractTextFromImage_def ex_path_nonempty ex_env_fields maxSize_def
        lines_text_ex trim_ex_ocr_text ex_ocr_text_nonempty)

lemma extractTextFromBuffer_ex:
  "extractTextFromBuffer ex_env w 204800 = (Inr ex_ocr_text, log_event (TextractRequest []) w)"
  by (simp add: extractTextFromBuffer_def ex_env_fields maxSize_def
        lines_text_ex trim_ex_ocr_text ex_ocr_text_nonempty)

lemma ex_message_nonempty: "ex_message \<noteq> []"
  by (simp add: ex_message_def)
subsection \<open>A duplicate ends the request without a write\<close>

lemma duplicate_text:
  assumes "validateUserId uid = Inr u"
    and "extractTransactionFromText env w text = (Inr td, w1)"
    and "validateTransaction env (with_source td ''manual'' text) = Inr v"
    and "checkForDuplicates env (table w1) u v = Inr (d # ds)"
  shows "processTransactionFromText env w uid text =
           (Inr \<lparr> transaction = None, message = duplicate_message env False d,
                   isDuplicate = True, duplicateTransaction = Some d \<rparr>, w1)
         \<and> table w1 = table w \<and> create_calls w1 = create_calls w"
  using assms extractTransactionFromText_frame [OF assms(2)]
  by (simp add: processTransactionFromText_def)

lemma duplicate_image:
  assumes "validateUserId uid = Inr u"
    and "extractTextFromImage env w path = (Inr txt, w0)"
    and "extractTransactionFromText env w0 (JStr txt) = (Inr td, w1)"
    and "validateTransaction env (with_source td ''ocr'' (JStr txt)) = Inr v"
    and "checkForDuplicates env (table w1) u v = Inr (d # ds)"
  shows "\<exists>w2. processTransactionFromImage env w uid path =
           (Inr \<lparr> transaction = None, message = duplicate_message env True d,
                   isDuplicate = True, duplicateTransaction = Some d \<rparr>, w2)
         \<and> table w2 = table w \<and> create_calls w2 = create_calls w"
proof -
  obtain r w2 where c: "cleanupImageFile env w1 path = (r, w2)"
    by (cases "cleanupImageFile env w1 path")
  note f = cleanupImageFile_frame [OF c] extractTransactionFromText_frame [OF assms(3)]
    extractTextFromImage_frame [OF assms(2)]
  from f have r: "r = Inr ()" by simp
  have "processTransactionFromImage env w uid path =
           (Inr \<lparr> transaction = None, message = duplicate_message env True d,
                   isDuplicate = True, duplicateTransaction = Some d \<rparr>, w2)"
    using assms c r
    by (simp add: processTransactionFromImage_def processTransactionFromImage_try_def)
  with f show ?thesis by simp
qed

lemma duplicate_buffer:
  assumes "validateUserId uid = Inr u"
    and "extractTextFromBuffer env w n = (Inr txt, w0)"
    and "extractTransactionFromText env w0 (JStr txt) = (Inr td, w1)"
    and "validateTransaction env (with_source td ''ocr'' (JStr txt)) = Inr v"
    and "checkForDuplicates env (table w1) u v = Inr (d # ds)"
  shows "processTransactionFromBuffer env w uid n =
           (Inr \<lparr> transaction = None, message = duplicate_message env True d,
                   isDuplicate = True, duplicateTransaction = Some d \<rparr>, w1)
         \<and> table w1 = table w \<and> create_calls w1 = create_calls w"
  using assms extractTransactionFromText_frame [OF assms(3)]
    extractTextFromBuffer_frame [OF assms(2)]
  by (simp add: processTransactionFromBuffer_def)

text \<open>
  C2. In a run of the text pipeline, of the image pipeline or of the buffer pipeline in
  which the duplicate check returns a non-empty list \<open>d # ds\<close>, the table is left as it
  was, \<^verbatim>\<open>createTransaction\<close> is not called, and the result has \<^verbatim>\<open>transaction = null\<close>,
  \<^verbatim>\<open>isDuplicate = true\<close> and \<^verbatim>\<open>duplicateTransaction = d\<close>.
\<close>

theorem duplicate_found_no_write:
  "(validateUserId uid = Inr u
      \<and> extractTransactionFromText env w text = (Inr td, w1)
      \<and> validateTransaction env (with_source td ''manual'' text) = Inr v
      \<and> checkForDuplicates env (table w1) u v = Inr (d # ds)
    \<longrightarrow> (\<exists>m w'. processTransactionFromText env w uid text =
                   (Inr \<lparr> transaction = None, message = m, isDuplicate = True,
                           duplicateTransaction = Some d \<rparr>, w')
                 \<and> table w' = table w \<and> create_calls w' = create_calls w))
   \<and> (validateUserId uid = Inr u
      \<and> extractTextFromImage env w path = (Inr txt, w0)
      \<and> extractTransactionFromText env w0 (JStr txt) = (Inr td, w1)
      \<and> validateTransaction env (with_source td ''ocr'' (JStr txt)) = Inr v
      \<and> checkForDuplicates env (table w1) u v = Inr (d # ds)
    \<longrightarrow> (\<exists>m w'. processTransactionFromImage env w uid path =
                   (Inr \<lparr> transaction = None, message = m, isDuplicate = True,
                           duplicateTransaction = Some d \<rparr>, w')
                 \<and> table w' = table w \<and> create_calls w' = create_calls w))
   \<and> (validateUserId uid = Inr u
      \<and> extractTextFromBuffer env w n = (Inr txt, w0)
      \<and> extractTransactionFromText env w0 (JStr txt) = (Inr td, w1)
      \<and> validateTransaction env (with_source td ''ocr'' (JStr txt)) = Inr v
      \<and> checkForDuplicates env (table w1) u v = Inr (d # ds)
    \<longrightarrow> (\<exists>m w'. processTransactionFromBuffer env w uid n =
                   (Inr \<lparr> transaction = None, message = m, isDuplicate = True,
                           duplicateTransaction = Some d \<rparr>, w')
                 \<and> table w' = table w \<and> create_calls w' = create_calls w))"
proof (intro conjI impI)
  assume "validateUserId uid = Inr u
      \<and> extractTransactionFromText env w text = (Inr td, w1)
      \<and> validateTransaction env (with_source td ''manual'' text) = Inr v
      \<and> checkForDuplicates env (table w1) u v = Inr (d # ds)"
  then show "\<exists>m w'. processTransactionFromText env w uid text =
                   (Inr \<lparr> transaction = None, message = m, isDuplicate = True,
                           duplicateTransaction = Some d \<rparr>, w')
                 \<and> table w' = table w \<and> create_calls w' = create_calls w"
    using duplicate_text [of uid u env w "text" td w1 v d ds] by blast
next
  assume "validateUserId uid = Inr u
      \<and> extractTextFromImage env w path = (Inr txt, w0)
      \<and> extractTransactionFromText env w0 (JStr txt) = (Inr td, w1)
      \<and> validateTransaction env (with_source td ''ocr'' (JStr txt)) = Inr v
      \<and> checkForDuplicates env (table w1) u v = Inr (d # ds)"
  then show "\<exists>m w'. processTransactionFromImage env w uid path =
                   (Inr \<lparr> transaction = None, message = m, isDuplicate = True,
                           duplicateTransaction = Some d \<rparr>, w')
                 \<and> table w' = table w \<and> create_calls w' = create_calls w"
    using duplicate_image [of uid u env w path "txt" w0 td w1 v d ds] by blast
next
  assume "validateUserId uid = Inr u
      \<and> extractTextFromBuffer env w n = (Inr txt, w0)
      \<and> extractTransactionFromText env w0 (JStr txt) = (Inr td, w1)
      \<and> validateTransaction env (with_source td ''ocr'' (JStr txt)) = Inr v
      \<and> checkForDuplicates env (table w1) u v = Inr (d # ds)"
  then show "\<exists>m w'. processTransactionFromBuffer env w uid n =
                   (Inr \<lparr> transaction = None, message = m, isDuplicate = True,
                           duplicateTransaction = Some d \<rparr>, w')
                 \<and> table w' = table w \<and> create_calls w' = create_calls w"
    using duplicate_buffer [of uid u env w n "txt" w0 td w1 v d ds] by blast
qed
subsection \<open>Nothing is written that the validator has not passed\<close>

lemma validateTransaction_Inr:
  assumes "validateTransaction env c = Inr v"
  shows "validateAmount (raw_amount c) = Inr (amount v)
       \<and> validateDate env (raw_date c) = Inr (date v)
       \<and> validateTransactionType (raw_type c) = Inr (type v)
       \<and> validateMerchant (raw_merchant c) = Inr (merchant v)
       \<and> validateCategory (raw_category c) = Inr (category v)
       \<and> validateCurrency (js_or (raw_currency c) (JStr ''USD'')) = Inr (currency v)
       \<and> description v = (if truthy (raw_description c)
                           then trim (ToString env (raw_description c)) else [])
       \<and> length (description v) \<le> 500
       \<and> source v = js_or (raw_source c) (JStr ''manual'')
       \<and> rawText v = js_or (raw_rawText c) (JStr [])"
proof -
  from assms have b: "validateTransaction_body env c = Inr v"
    by (auto simp: validateTransaction_def split: sum.splits if_splits)
  then show ?thesis
    unfolding validateTransaction_body_def Let_def
    by (auto split: sum.splits if_splits)
qed

lemma validateCurrency_nonempty: "validateCurrency c = Inr s \<Longrightarrow> s \<noteq> []"
  by (cases c) (auto simp: validateCurrency_cases split: if_splits)

lemma js_or_idem: "js_or (js_or x d) d = js_or x d"
  by (simp add: js_or_def)

text \<open>The item built from validated data carries the validated fields unchanged.\<close>

lemma new_item_validated:
  assumes "validateTransaction env c = Inr v"
  shows "amount (new_item env' u v) = amount v \<and> date (new_item env' u v) = date v
       \<and> type (new_item env' u v) = type v \<and> merchant (new_item env' u v) = merchant v
       \<and> category (new_item env' u v) = category v \<and> currency (new_item env' u v) = currency v
       \<and> description (new_item env' u v) = description v
       \<and> source (new_item env' u v) = source v \<and> rawText (new_item env' u v) = rawText v
       \<and> userId (new_item env' u v) = u"
  using validateTransaction_Inr [OF assms] validateCurrency_nonempty [of _ "currency v"]
  by (auto simp: new_item_def Let_def str_or_def js_or_idem)

text \<open>From the validated data on, where the three entry points do the same.\<close>

lemma after_create:
  assumes v: "validateTransaction env c = Inr v" and p: "cand c"
    and u: "validateUserId uid = Inr u"
    and c: "createTransaction env w1 u v = (r2, w2)"
    and f: "table w1 = table w" "create_calls w1 = create_calls w"
    and w': "table w' = table w2" "create_calls w' = create_calls w2"
  shows "validated_write env w w' uid cand"
proof -
  note f2 = createTransaction_frame [OF c]
  note i = new_item_validated [OF v, of env u] validateTransaction_Inr [OF v]
  have t: "table w' = table w \<or> table w' = dynamo_put (table w) (new_item env u v)"
    using f2 f w' by (cases r2) auto
  have n: "create_calls w' = create_calls w + 1"
    using f2 f w' by simp
  show ?thesis
    using v p u t n i by (intro disjI2 exI [of _ c] exI [of _ v] exI [of _ u]) simp
qed

lemma text_run:
  assumes "processTransactionFromText env w uid text = (r, w')"
  shows "validated_write env w w' uid (candidate_of_text env w text)"
proof (cases "validateUserId uid")
  case (Inl e)
  with assms show ?thesis by (simp add: processTransactionFromText_def)
next
  case u: (Inr u)
  obtain r1 w1 where x: "extractTransactionFromText env w text = (r1, w1)"
    by (cases "extractTransactionFromText env w text")
  note f1 = extractTransactionFromText_frame [OF x]
  show ?thesis
  proof (cases r1)
    case (Inl e)
    with assms u x f1 show ?thesis by (simp add: processTransactionFromText_def)
  next
    case td: (Inr td)
    have cand: "candidate_of_text env w text (with_source td ''manual'' text)"
      using x td by (simp add: candidate_of_text_def)
    show ?thesis
    proof (cases "validateTransaction env (with_source td ''manual'' text)")
      case (Inl e)
      with assms u x td f1 show ?thesis by (simp add: processTransactionFromText_def)
    next
      case v: (Inr v)
      show ?thesis
      proof (cases "checkForDuplicates env (table w1) u v")
        case (Inl e)
        with assms u x td v f1 show ?thesis by (simp add: processTransactionFromText_def)
      next
        case ds: (Inr ds)
        show ?thesis
        proof (cases "length ds > 0")
          case True
          with assms u x td v ds f1 show ?thesis
            by (simp add: processTransactionFromText_def)
        next
          case False
          obtain r2 w2 where c: "createTransaction env w1 u v = (r2, w2)"
            by (cases "createTransaction env w1 u v")
          from assms u x td v ds False c have "w' = w2"
            by (auto simp: processTransactionFromText_def split: sum.splits)
          with after_create [where cand = "candidate_of_text env w text" and w = w and w' = w', OF v cand u c] f1 show ?thesis by simp
        qed
      qed
    qed
  qed
qed

lemma buffer_run:
  assumes "processTransactionFromBuffer env w uid n = (r, w')"
  shows "validated_write env w w' uid (candidate_of_buffer env w n)"
proof (cases "validateUserId uid")
  case (Inl e)
  with assms show ?thesis by (simp add: processTransactionFromBuffer_def)
next
  case u: (Inr u)
  obtain r0 w0 where o: "extractTextFromBuffer env w n = (r0, w0)"
    by (cases "extractTextFromBuffer env w n")
  note f0 = extractTextFromBuffer_frame [OF o]
  show ?thesis
  proof (cases r0)
    case (Inl e)
    with assms u o f0 show ?thesis by (simp add: processTransactionFromBuffer_def)
  next
    case tx: (Inr extractedText)
    obtain r1 w1 where x: "extractTransactionFromText env w0 (JStr extractedText) = (r1, w1)"
      by (cases "extractTransactionFromText env w0 (JStr extractedText)")
    note f1 = extractTransactionFromText_frame [OF x]
    show ?thesis
    proof (cases r1)
      case (Inl e)
      with assms u o tx x f0 f1 show ?thesis by (simp add: processTransactionFromBuffer_def)
    next
      case td: (Inr td)
      have cand: "candidate_of_buffer env w n (with_source td ''ocr'' (JStr extractedText))"
        using o tx x td by (simp add: candidate_of_buffer_def)
      show ?thesis
      proof (cases "validateTransaction env (with_source td ''ocr'' (JStr extractedText))")
        case (Inl e)
        with assms u o tx x td f0 f1 show ?thesis by (simp add: processTransactionFromBuffer_def)
      next
        case v: (Inr v)
        show ?thesis
        proof (cases "checkForDuplicates env (table w1) u v")
          case (Inl e)
          with assms u o tx x td v f0 f1 show ?thesis
            by (simp add: processTransactionFromBuffer_def)
        next
          case ds: (Inr ds)
          show ?thesis
          proof (cases "length ds > 0")
            case True
            with assms u o tx x td v ds f0 f1 show ?thesis
              by (simp add: processTransactionFromBuffer_def)
          next
            case False
            obtain r2 w2 where c: "createTransaction env w1 u v = (r2, w2)"
              by (cases "createTransaction env w1 u v")
            from assms u o tx x td v ds False c have "w' = w2"
              by (auto simp: processTransactionFromBuffer_def split: sum.splits)
            with after_create [where cand = "candidate_of_buffer env w n" and w = w and w' = w', OF v cand u c] f0 f1 show ?thesis by simp
          qed
        qed
      qed
    qed
  qed
qed

lemma image_try_run:
  assumes "processTransactionFromImage_try env w uid path = (r, w', cleanedUp)"
  shows "validated_write env w w' uid (candidate_of_image env w path)"
proof (cases "validateUserId uid")
  case (Inl e)
  with assms show ?thesis by (simp add: processTransactionFromImage_try_def)
next
  case u: (Inr u)
  obtain r0 w0 where o: "extractTextFromImage env w path = (r0, w0)"
    by (cases "extractTextFromImage env w path")
  note f0 = extractTextFromImage_frame [OF o]
  show ?thesis
  proof (cases r0)
    case (Inl e)
    with assms u o f0 show ?thesis by (simp add: processTransactionFromImage_try_def)
  next
    case tx: (Inr extractedText)
    obtain r1 w1 where x: "extractTransactionFromText env w0 (JStr extractedText) = (r1, w1)"
      by (cases "extractTransactionFromText env w0 (JStr extractedText)")
    note f1 = extractTransactionFromText_frame [OF x]
    show ?thesis
    proof (cases r1)
      case (Inl e)
      with assms u o tx x f0 f1 show ?thesis by (simp add: processTransactionFromImage_try_def)
    next
      case td: (Inr td)
      have cand: "candidate_of_image env w path (with_source td ''ocr'' (JStr extractedText))"
        using o tx x td by (simp add: candidate_of_image_def)
      show ?thesis
      proof (cases "validateTransaction env (with_source td ''ocr'' (JStr extractedText))")
        case (Inl e)
        with assms u o tx x td f0 f1 show ?thesis
          by (simp add: processTransactionFromImage_try_def)
      next
        case v: (Inr v)
        show ?thesis
        proof (cases "checkForDuplicates env (table w1) u v")
          case (Inl e)
          with assms u o tx x td v f0 f1 show ?thesis
            by (simp add: processTransactionFromImage_try_def)
        next
          case ds: (Inr ds)
          show ?thesis
          proof (cases "length ds > 0")
            case True
            obtain rc wc where cl: "cleanupImageFile env w1 path = (rc, wc)"
              by (cases "cleanupImageFile env w1 path")
            note fc = cleanupImageFile_frame [OF cl]
            from assms u o tx x td v ds True cl fc have "w' = wc"
              by (auto simp: processTransactionFromImage_try_def split: sum.splits)
            with fc f0 f1 show ?thesis by simp
          next
            case False
            obtain r2 w2 where c: "createTransaction env w1 u v = (r2, w2)"
              by (cases "createTransaction env w1 u v")
            show ?thesis
            proof (cases r2)
              case (Inl e)
              with assms u o tx x td v ds False c have "w' = w2"
                by (simp add: processTransactionFromImage_try_def)
              with after_create [where cand = "candidate_of_image env w path" and w = w and w' = w', OF v cand u c] f0 f1 show ?thesis by simp
            next
              case it: (Inr it)
              obtain rc wc where cl: "cleanupImageFile env w2 path = (rc, wc)"
                by (cases "cleanupImageFile env w2 path")
              note fc = cleanupImageFile_frame [OF cl]
              from assms u o tx x td v ds False c it cl fc have "w' = wc"
                by (auto simp: processTransactionFromImage_try_def split: sum.splits)
              with after_create [where cand = "candidate_of_image env w path" and w = w and w' = w', OF v cand u c] fc f0 f1 show ?thesis by simp
            qed
          qed
        qed
      qed
    qed
  qed
qed

lemma image_run:
  assumes "processTransactionFromImage env w uid path = (r, w')"
  shows "validated_write env w w' uid (candidate_of_image env w path)"
proof -
  obtain r1 w1 cleanedUp
    where t: "processTransactionFromImage_try env w uid path = (r1, w1, cleanedUp)"
    by (cases "processTransactionFromImage_try env w uid path")
  note a = image_try_run [OF t]
  obtain rc wc where cl: "cleanupImageFile env w1 path = (rc, wc)"
    by (cases "cleanupImageFile env w1 path")
  note fc = cleanupImageFile_frame [OF cl]
  from assms t cl fc have "w' = w1 \<or> w' = wc"
    by (auto simp: processTransactionFromImage_def split: sum.splits if_splits)
  then have "table w' = table w1 \<and> create_calls w' = create_calls w1"
    using fc by auto
  with a show ?thesis by simp
qed

text \<open>
  C3. Whatever a request of any of the three entry points does, \<^verbatim>\<open>createTransaction\<close> is
  called at most once, and only on the data that \<^verbatim>\<open>validateTransaction\<close> has returned for
  the candidate of the request; the fields of the item it writes are the outputs of the
  field validators on that candidate (the coerced amount, the normalized date, the
  lowercased type, the trimmed merchant and category, the uppercased currency).
\<close>

theorem persisted_only_after_validation:
  "validated_write env w (snd (processTransactionFromText env w uid text)) uid
     (candidate_of_text env w text)
   \<and> validated_write env w (snd (processTransactionFromImage env w uid path)) uid
       (candidate_of_image env w path)
   \<and> validated_write env w (snd (processTransactionFromBuffer env w uid n)) uid
       (candidate_of_buffer env w n)"
  using text_run [OF surjective_pairing] image_run [OF surjective_pairing]
    buffer_run [OF surjective_pairing]
  by blast

subsection \<open>The uploaded file is cleaned up once\<close>

lemma image_try_cleanup:
  assumes "processTransactionFromImage_try env w uid path = (r, w', cleanedUp)"
  shows "cleanup_calls w' = cleanup_calls w + (if cleanedUp then 1 else 0)"
  using assms
  unfolding processTransactionFromImage_try_def
  by (auto split: sum.splits prod.splits if_splits
           dest!: extractTransactionFromText_frame extractTextFromImage_frame
                  cleanupImageFile_frame createTransaction_frame)

lemma image_cleanup_once:
  assumes "processTransactionFromImage env w uid path = (r, w')"
  shows "cleanup_calls w' = cleanup_calls w + 1
         \<and> r = fst (processTransactionFromImage_try env w uid path)"
proof -
  obtain r1 w1 cleanedUp
    where t: "processTransactionFromImage_try env w uid path = (r1, w1, cleanedUp)"
    by (cases "processTransactionFromImage_try env w uid path")
  note n = image_try_cleanup [OF t]
  obtain rc wc where cl: "cleanupImageFile env w1 path = (rc, wc)"
    by (cases "cleanupImageFile env w1 path")
  note fc = cleanupImageFile_frame [OF cl]
  have ok: "cleanedUp" if "r1 = Inr x" for x
    using t that unfolding processTransactionFromImage_try_def
    by (auto split: sum.splits prod.splits if_splits)
  show ?thesis
  proof (cases r1)
    case (Inl e)
    with assms t cl fc n show ?thesis
      by (cases cleanedUp) (auto simp: processTransactionFromImage_def)
  next
    case (Inr x)
    with assms t n ok [OF Inr] show ?thesis
      by (simp add: processTransactionFromImage_def)
  qed
qed

lemma cleanupImageFile_never_throws: "fst (cleanupImageFile env w p) = Inr ()"
  using cleanupImageFile_frame [OF surjective_pairing, of env w p] by simp

text \<open>A file above 10 MB is rejected before the recognition service is called.\<close>

lemma image_too_large:
  assumes "validateUserId uid = Inr u" "path \<noteq> []" "files w path = Some sz" "maxSize < sz"
    and "readFile_failure env = None"
  shows "\<exists>m w'. processTransactionFromImage env w uid path = (Inl (OCRError m), w')
           \<and> textract_requests w' = textract_requests w
           \<and> cleanup_calls w' = cleanup_calls w + 1"
proof -
  obtain rc wc where cl: "cleanupImageFile env w path = (rc, wc)"
    by (cases "cleanupImageFile env w path")
  note fc = cleanupImageFile_frame [OF cl]
  have "processTransactionFromImage_try env w uid path =
          (Inl (OCRError (''Image file is too large. Maximum size is 10 MB. Current size: ''
                 @ Number_toFixed2 env (Finite (of_nat sz / 1024 / 1024)) @ '' MB'')), w, False)"
    using assms by (simp add: processTransactionFromImage_try_def extractTextFromImage_def)
  with cl fc show ?thesis
    by (simp add: processTransactionFromImage_def)
qed

text \<open>
  C9. Every run of the image pipeline calls \<^verbatim>\<open>cleanupImageFile\<close> exactly once, whether it
  ends with a stored transaction, with a duplicate or with the failure of a stage, and
  its outcome is the outcome of the stages: \<^verbatim>\<open>cleanupImageFile\<close> never throws, also when
  \<^verbatim>\<open>unlink\<close> fails. A file of more than 10 MB is rejected with an \<open>OCRError\<close> without any
  request to the recognition service, and is cleaned up as well.
\<close>

theorem cleanup_exactly_once:
  "(processTransactionFromImage env w uid path = (r, w')
      \<longrightarrow> cleanup_calls w' = cleanup_calls w + 1
          \<and> r = fst (processTransactionFromImage_try env w uid path))
   \<and> fst (cleanupImageFile env w0 p) = Inr ()
   \<and> (validateUserId uid = Inr u \<and> path \<noteq> [] \<and> files w path = Some sz \<and> maxSize < sz
        \<and> readFile_failure env = None
      \<longrightarrow> (\<exists>m w''. processTransactionFromImage env w uid path = (Inl (OCRError m), w'')
             \<and> textract_requests w'' = textract_requests w
             \<and> cleanup_calls w'' = cleanup_calls w + 1))"
  using image_cleanup_once [of env w uid path r w'] cleanupImageFile_never_throws [of env w0 p]
    image_too_large [of uid u path w sz env]
  by blast
subsection \<open>The example request, run\<close>

lemma ex_world_fields:
  "table (ex_world tbl) = tbl" "files (ex_world tbl) = ex_files" "trace (ex_world tbl) = []"
  "create_calls (ex_world tbl) = 0" "cleanup_calls (ex_world tbl) = 0"
  "textract_requests (ex_world tbl) = 0"
  by (simp_all add: ex_world_def create_calls_def cleanup_calls_def textract_requests_def)

lemma ex_files_path: "ex_files ex_path = Some 204800"
  by (simp add: ex_files_def)

text \<open>With no record in the table, the text pipeline stores the validated candidate.\<close>

lemma text_run_ex_stores:
  "table (snd (processTransactionFromText ex_env (ex_world []) (JStr ''user-1'') (JStr ex_message)))
     = [new_item ex_env ''user-1'' (ex_validated (JStr ''manual'') (JStr ex_message))]"
proof -
  have c: "createTransaction ex_env w ''user-1'' v
             = (Inr (new_item ex_env ''user-1'' v),
                (log_event (CreateTransactionCall ''user-1'') w)
                  \<lparr>table := dynamo_put (table w) (new_item ex_env ''user-1'' v)\<rparr>)" for w v
    by (simp add: createTransaction_def ex_env_fields Let_def)
  have g: "\<exists>m. generateConfirmationMessage ex_env
                  (new_item ex_env ''user-1'' (ex_validated a b)) f = Inr m" for a b f
    by (simp add: generateConfirmationMessage_def new_item_def ex_validated_def Let_def)
  obtain m where m: "generateConfirmationMessage ex_env
       (new_item ex_env ''user-1'' (ex_validated (JStr ''manual'') (JStr ex_message))) False = Inr m"
    using g by blast
  show ?thesis
    by (simp add: processTransactionFromText_def validateUserId_user_1
          extract_ex [OF ex_message_nonempty] trim_ex_message ex_message_nonempty
          validateTransaction_ex checkForDuplicates_ex_empty ex_world_fields c m dynamo_put_def)
qed

theorem persisted_only_after_validation_witness:
  "table (snd (processTransactionFromText ex_env (ex_world []) (JStr ''user-1'') (JStr ex_message)))
     = [new_item ex_env ''user-1'' (ex_validated (JStr ''manual'') (JStr ex_message))]
   \<and> validated_write ex_env (ex_world [])
        (snd (processTransactionFromText ex_env (ex_world []) (JStr ''user-1'') (JStr ex_message)))
        (JStr ''user-1'') (candidate_of_text ex_env (ex_world []) (JStr ex_message))"
  using persisted_only_after_validation
          [of ex_env "ex_world []" "JStr ''user-1''" "JStr ex_message" ex_path 204800]
    text_run_ex_stores
  by blast

theorem duplicate_found_no_write_witness:
  "validateUserId (JStr ''user-1'') = Inr ''user-1''
   \<and> extractTransactionFromText ex_env (ex_world [ex_stored]) (JStr ex_message)
       = (Inr ex_candidate, log_event (OpenAIRequest (user_message ex_message)) (ex_world [ex_stored]))
   \<and> validateTransaction ex_env (with_source ex_candidate ''manual'' (JStr ex_message))
       = Inr (ex_validated (JStr ''manual'') (JStr ex_message))
   \<and> checkForDuplicates ex_env [ex_stored] ''user-1''
        (ex_validated (JStr ''manual'') (JStr ex_message)) = Inr [ex_stored]
   \<and> (\<exists>m w'. processTransactionFromText ex_env (ex_world [ex_stored]) (JStr ''user-1'')
                 (JStr ex_message)
               = (Inr \<lparr> transaction = None, message = m, isDuplicate = True,
                        duplicateTransaction = Some ex_stored \<rparr>, w')
             \<and> table w' = [ex_stored] \<and> create_calls w' = 0)
   \<and> extractTextFromImage ex_env (ex_world [ex_stored]) ex_path
       = (Inr ex_ocr_text, log_event (TextractRequest ex_path) (ex_world [ex_stored]))
   \<and> (\<exists>m w'. processTransactionFromImage ex_env (ex_world [ex_stored]) (JStr ''user-1'') ex_path
               = (Inr \<lparr> transaction = None, message = m, isDuplicate = True,
                        duplicateTransaction = Some ex_stored \<rparr>, w')
             \<and> table w' = [ex_stored] \<and> create_calls w' = 0)"
proof -
  let ?w = "ex_world [ex_stored]"
  let ?wa = "log_event (TextractRequest ex_path) ?w"
  have h1: "validateUserId (JStr ''user-1'') = Inr ''user-1''"
    by (rule validateUserId_user_1)
  have h2: "extractTransactionFromText ex_env ?w (JStr ex_message)
       = (Inr ex_candidate, log_event (OpenAIRequest (user_message ex_message)) ?w)"
    using extract_ex [OF ex_message_nonempty] by (simp add: trim_ex_message ex_message_nonempty)
  have h3: "validateTransaction ex_env (with_source ex_candidate ''manual'' (JStr ex_message))
       = Inr (ex_validated (JStr ''manual'') (JStr ex_message))"
    by (simp add: validateTransaction_ex ex_message_nonempty)
  have h4: "checkForDuplicates ex_env
              (table (log_event (OpenAIRequest (user_message ex_message)) ?w)) ''user-1''
              (ex_validated (JStr ''manual'') (JStr ex_message)) = Inr [ex_stored]"
    by (simp add: ex_world_fields checkForDuplicates_ex_stored)
  have i2: "extractTextFromImage ex_env ?w ex_path = (Inr ex_ocr_text, ?wa)"
    by (simp add: extractTextFromImage_ex ex_world_fields ex_files_path)
  have i3: "extractTransactionFromText ex_env ?wa (JStr ex_ocr_text)
       = (Inr ex_candidate, log_event (OpenAIRequest (user_message ex_ocr_text)) ?wa)"
    using extract_ex [OF ex_ocr_text_nonempty] by (simp add: trim_ex_ocr_text ex_ocr_text_nonempty)
  have i4: "validateTransaction ex_env (with_source ex_candidate ''ocr'' (JStr ex_ocr_text))
       = Inr (ex_validated (JStr ''ocr'') (JStr ex_ocr_text))"
    by (simp add: validateTransaction_ex ex_ocr_text_nonempty)
  have i5: "checkForDuplicates ex_env
              (table (log_event (OpenAIRequest (user_message ex_ocr_text)) ?wa)) ''user-1''
              (ex_validated (JStr ''ocr'') (JStr ex_ocr_text)) = Inr [ex_stored]"
    by (simp add: ex_world_fields checkForDuplicates_ex_stored)
  note inst = duplicate_found_no_write
    [of "JStr ''user-1''" "''user-1''" ex_env ?w "JStr ex_message" ex_candidate
        "log_event (OpenAIRequest (user_message ex_message)) ?w"
        "ex_validated (JStr ''manual'') (JStr ex_message)" ex_stored "[]"]
  note inst2 = duplicate_found_no_write
    [of "JStr ''user-1''" "''user-1''" ex_env ?w _ ex_candidate
        "log_event (OpenAIRequest (user_message ex_ocr_text)) ?wa"
        "ex_validated (JStr ''ocr'') (JStr ex_ocr_text)" ex_stored "[]"
        ex_path ex_ocr_text ?wa]
  from inst h1 h2 h3 h4
  have a: "\<exists>m w'. processTransactionFromText ex_env ?w (JStr ''user-1'') (JStr ex_message)
               = (Inr \<lparr> transaction = None, message = m, isDuplicate = True,
                        duplicateTransaction = Some ex_stored \<rparr>, w')
             \<and> table w' = [ex_stored] \<and> create_calls w' = 0"
    by (simp add: ex_world_fields)
  from inst2 h1 i2 i3 i4 i5
  have b: "\<exists>m w'. processTransactionFromImage ex_env ?w (JStr ''user-1'') ex_path
               = (Inr \<lparr> transaction = None, message = m, isDuplicate = True,
                        duplicateTransaction = Some ex_stored \<rparr>, w')
             \<and> table w' = [ex_stored] \<and> create_calls w' = 0"
    by (simp add: ex_world_fields)
  from h1 h2 h3 a i2 b checkForDuplicates_ex_stored show ?thesis by blast
qed

theorem cleanup_exactly_once_witness:
  "cleanup_calls (snd (processTransactionFromImage ex_env_unlink_fails (ex_world [])
                         (JStr ''user-1'') ex_path)) = 1
   \<and> fst (cleanupImageFile ex_env_unlink_fails (ex_world []) ex_path) = Inr ()
   \<and> validateUserId (JStr ''user-1'') = Inr ''user-1'' \<and> ex_path \<noteq> []
   \<and> ex_files_big ex_path = Some 11000000 \<and> maxSize < 11000000
   \<and> readFile_failure ex_env = None
   \<and> (\<exists>m w'. processTransactionFromImage ex_env \<lparr> table = [], files = ex_files_big, trace = [] \<rparr>
                 (JStr ''user-1'') ex_path = (Inl (OCRError m), w')
             \<and> textract_requests w' = 0 \<and> cleanup_calls w' = 1)"
proof -
  let ?run = "processTransactionFromImage ex_env_unlink_fails (ex_world []) (JStr ''user-1'') ex_path"
  let ?big = "\<lparr> table = [], files = ex_files_big, trace = [] \<rparr>"
  have h: "validateUserId (JStr ''user-1'') = Inr ''user-1''" "ex_path \<noteq> []"
    "files ?big ex_path = Some 11000000" "maxSize < 11000000" "readFile_failure ex_env = None"
    by (simp_all add: validateUserId_user_1 ex_path_nonempty ex_files_big_def maxSize_def
          ex_env_fields)
  have z: "textract_requests ?big = 0" "cleanup_calls ?big = 0"
    by (simp_all add: textract_requests_def cleanup_calls_def)
  from cleanup_exactly_once
         [of ex_env_unlink_fails "ex_world []" "JStr ''user-1''" ex_path "fst ?run" "snd ?run"
             "ex_world []" ex_path]
  have a: "cleanup_calls (snd ?run) = 1"
    and b: "fst (cleanupImageFile ex_env_unlink_fails (ex_world []) ex_path) = Inr ()"
    by (simp_all add: ex_world_fields)
  from cleanup_exactly_once
         [of ex_env ?big "JStr ''user-1''" ex_path _ _ _ _ "''user-1''" 11000000] h z
  have c: "\<exists>m w'. processTransactionFromImage ex_env ?big (JStr ''user-1'') ex_path
                     = (Inl (OCRError m), w')
             \<and> textract_requests w' = 0 \<and> cleanup_calls w' = 1"
    by simp
  from a b c h show ?thesis by (simp add: ex_files_big_def)
qed

end
